theory Spec2Isabelle
  imports Complex_Main
begin

section \<open>Values shared by the whole package\<close>

text \<open>
  The package \<open>gocs\<close> is a Go client for two REST interfaces of one vendor: the
  intelligence family (\<open>intel.go\<close>, and the older combined client of \<open>cs.go\<close>) and the
  host family (the second half of \<open>cs.go\<close>), both on top of \<open>common.go\<close>.
  The older combined client repeats the code of \<open>common.go\<close> and \<open>intel.go\<close> (its \<open>do\<close>
  sets the two authentication headers itself); it is modelled once, with its constructor
  \<open>New\<close> beside \<open>newClient\<close>. Its indicator request, whose sort field is a struct and not
  a pointer, is not modelled: the indicator request here is the one of \<open>intel.go\<close>.
  Go strings are byte sequences: they are \<open>string\<close> here. Go's \<open>int\<close> and \<open>int64\<close> are
  \<open>int\<close>: the package never computes with them, it only compares them with zero and
  prints them, so no wrap-around can occur.
\<close>

type_synonym bytes = string

subsection \<open>The error value\<close>

text \<open>
  \<open>Error\<close> is the struct \<open>Error{Code, Message}\<close> of \<open>common.go\<close>. Every other error the
  package returns is a value made by the standard library or by the transport
  (\<open>url.Parse\<close>, \<open>http.NewRequest\<close>, \<open>Client.Do\<close>, \<open>io.Copy\<close>, the JSON decoder): it is
  \<open>Foreign\<close> with its text. \<open>Panic\<close> is not a returned value: it stands for the run-time
  panic of a method call on a nil reader.
\<close>

datatype error = Error (Code: string) (Message: string) | Foreign string | Panic

definition ErrMissingCredentials :: error where
  "ErrMissingCredentials =
     Error ''missing_credentials'' ''You must provide the CrowsStrike API ID and key''"

definition ErrMissingParams :: error where
  "ErrMissingParams =
     Error ''missing_parameters''
       ''You must provide the CrowsStrike API required parameters for the request''"

definition DefaultURL :: string where
  "DefaultURL = ''https://intelapi.crowdstrike.com/''"

definition DefaultURLHost :: string where
  "DefaultURLHost = ''https://falconapi.crowdstrike.com/''"

definition AuthHeaderID :: string where
  "AuthHeaderID = ''X-CSIX-CUSTID''"

definition AuthHeaderKey :: string where
  "AuthHeaderKey = ''X-CSIX-CUSTKEY''"

definition AllFields :: string where
  "AllFields = ''__full__''"

definition BasicFields :: string where
  "BasicFields = ''__basic__''"

subsection \<open>Decimal rendering: \<open>strconv.Itoa\<close> and \<open>strconv.FormatInt(_, 10)\<close>\<close>

function nat_digits :: "nat \<Rightarrow> string" where
  "nat_digits n =
     (if n < 10 then [''0123456789'' ! n]
      else nat_digits (n div 10) @ [''0123456789'' ! (n mod 10)])"
  by pat_completeness auto
termination
  by (relation "measure (\<lambda>n. n)") auto

declare nat_digits.simps [simp del]

definition Itoa :: "int \<Rightarrow> string" where
  "Itoa i = (if i < 0 then CHR ''-'' # nat_digits (nat (- i)) else nat_digits (nat i))"

definition FormatInt10 :: "int \<Rightarrow> string" where
  "FormatInt10 i = Itoa i"

subsection \<open>\<open>url.Values\<close>\<close>

text \<open>
  \<open>url.Values\<close> is \<open>map[string][]string\<close>. It is an association list with one entry per
  key here, so that \<open>len(params)\<close> is its length. The order of the entries is the order
  in which the keys were first added; Go does not expose it (\<open>Encode\<close> sorts the keys),
  and nothing below depends on it. \<open>values_at params k\<close> is the index expression
  \<open>params[k]\<close>, the nil slice for a key that is absent.
\<close>

type_synonym Values = "(string \<times> string list) list"

fun Add :: "string \<Rightarrow> string \<Rightarrow> Values \<Rightarrow> Values" where
  "Add key val [] = [(key, [val])]"
| "Add key val ((k, vs) # params) =
     (if k = key then (k, vs @ [val]) # params else (k, vs) # Add key val params)"

definition values_at :: "Values \<Rightarrow> string \<Rightarrow> string list" where
  "values_at params k = (case map_of params k of None \<Rightarrow> [] | Some vs \<Rightarrow> vs)"

subsection \<open>\<open>time.Time\<close>\<close>

text \<open>
  A \<open>time.Time\<close> is an instant: whole seconds since 1970-01-01T00:00:00Z and the
  nanoseconds within the second. \<open>Unix\<close> is \<open>t.Unix()\<close>, \<open>time_Unix s\<close> is
  \<open>time.Unix(s, 0)\<close>, and \<open>IsZero\<close> is \<open>t.IsZero()\<close>: the zero \<open>Time\<close> is January 1 of
  year 1, which lies 62135596800 seconds before the epoch. The location of a \<open>Time\<close>
  only matters to its formatting, which is the library's.
\<close>

record Time =
  unix_sec :: int
  nsec :: nat

definition Unix :: "Time \<Rightarrow> int" where
  "Unix t = unix_sec t"

definition time_Unix :: "int \<Rightarrow> Time" where
  "time_Unix s = \<lparr>unix_sec = s, nsec = 0\<rparr>"

definition IsZero :: "Time \<Rightarrow> bool" where
  "IsZero t = (unix_sec t = - 62135596800 \<and> nsec t = 0)"

definition zero_Time :: Time where
  "zero_Time = \<lparr>unix_sec = - 62135596800, nsec = 0\<rparr>"

section \<open>Response structs and the timestamp normalizer\<close>

text \<open>
  A \<open>float64\<close> epoch field holds what the JSON decoder produced: a finite number, a
  \<open>real\<close> here. The conversion \<open>int64(x)\<close> discards the fraction (the language
  specification: truncation towards zero); when the whole part does not fit in 64 bits the
  conversion still succeeds and its result depends on the implementation: \<open>oor\<close> stands
  for that result.
\<close>

definition int64 :: "(real \<Rightarrow> int) \<Rightarrow> real \<Rightarrow> int" where
  "int64 oor x =
     (let i = (if 0 \<le> x then \<lfloor>x\<rfloor> else \<lceil>x\<rceil>)
      in if - (2 ^ 63) \<le> i \<and> i < 2 ^ 63 then i else oor x)"

record Slugable =
  ID :: int
  Value :: string
  Slug :: string

record Resource =
  ID :: int
  Name :: string
  ShortDescription :: string
  KnownAs :: string
  CreatedDate :: Time
  CreatedEpoch :: real
  TargetIndustries :: "Slugable list"
  LastModifiedDate :: Time
  LastModifiedEpoch :: real
  TargetCountries :: "Slugable list"
  FirstActivityDate :: Time
  FirstActivityEpoch :: real
  LastActivityDate :: Time
  LastActivityEpoch :: real
  URL :: string
  Motivations :: "Slugable list"
  Origins :: "Slugable list"
  Slug :: string

definition Resource_convertDates :: "(real \<Rightarrow> int) \<Rightarrow> Resource \<Rightarrow> Resource" where
  "Resource_convertDates oor r0 =
     (let r = r0\<lparr>Resource.CreatedDate := time_Unix (int64 oor (CreatedEpoch r0))\<rparr>;
          r = r\<lparr>LastActivityDate := time_Unix (int64 oor (LastActivityEpoch r))\<rparr>;
          r = r\<lparr>FirstActivityDate := time_Unix (int64 oor (FirstActivityEpoch r))\<rparr>;
          r = r\<lparr>LastActivityDate := time_Unix (int64 oor (LastActivityEpoch r))\<rparr>
      in r)"

record ActorResponse =
  Meta_Paging_Total :: int
  Meta_Paging_Offset :: int
  Meta_Paging_Limit :: int
  QueryTime :: real
  Resources :: "Resource list"

record Relation =
  Indicator :: string
  Type :: string
  CreatedDateEpoch :: real
  CreatedDate :: Time
  LastValidDateEpoch :: real
  LastValidDate :: Time

definition Relation_convertDates :: "(real \<Rightarrow> int) \<Rightarrow> Relation \<Rightarrow> Relation" where
  "Relation_convertDates oor r0 =
     (let r = r0\<lparr>Relation.CreatedDate := time_Unix (int64 oor (CreatedDateEpoch r0))\<rparr>;
          r = r\<lparr>LastValidDate := time_Unix (int64 oor (LastValidDateEpoch r))\<rparr>
      in r)"

record Label =
  Name :: string
  CreatedOnEpoch :: real
  CreatedOn :: Time
  LastValidOnEpoch :: real
  LastValidOn :: Time

definition Label_convertDates :: "(real \<Rightarrow> int) \<Rightarrow> Label \<Rightarrow> Label" where
  "Label_convertDates oor l0 =
     (let l = l0\<lparr>CreatedOn := time_Unix (int64 oor (CreatedOnEpoch l0))\<rparr>;
          l = l\<lparr>LastValidOn := time_Unix (int64 oor (LastValidOnEpoch l))\<rparr>
      in l)"

record IndicatorResponse =
  Indicator :: string
  Type :: string
  LastUpdatedEpoch :: real
  LastUpdated :: Time
  PublishedDateEpoch :: real
  PublishedDate :: Time
  MaliciousConfidence :: string
  Reports :: "string list"
  Actors :: "string list"
  MalwareFamilies :: "string list"
  KillChains :: "string list"
  DomainTypes :: "string list"
  IPAddressTypes :: "string list"
  Relations :: "Relation list"
  Labels :: "Label list"

text \<open>The two \<open>for i := range\<close> loops convert every element in place: they are \<open>map\<close>.\<close>

definition IndicatorResponse_convertDates ::
    "(real \<Rightarrow> int) \<Rightarrow> IndicatorResponse \<Rightarrow> IndicatorResponse" where
  "IndicatorResponse_convertDates oor ir0 =
     (let ir = ir0\<lparr>LastUpdated := time_Unix (int64 oor (LastUpdatedEpoch ir0))\<rparr>;
          ir = ir\<lparr>PublishedDate := time_Unix (int64 oor (PublishedDateEpoch ir))\<rparr>;
          ir = ir\<lparr>Relations := map (Relation_convertDates oor) (Relations ir)\<rparr>;
          ir = ir\<lparr>Labels := map (Label_convertDates oor) (Labels ir)\<rparr>
      in ir)"

section \<open>Request structs\<close>

record SortField =
  Name :: string
  Ascending :: bool

record Paging =
  Offset :: int
  Limit :: int

text \<open>\<open>ActorRequest\<close> and \<open>SearchIOCsRequest\<close> embed \<open>Paging\<close>: they extend its record.\<close>

record ActorRequest = Paging +
  Q :: string
  Name :: string
  Description :: string
  MinLastModifiedDate :: "Time option"
  MaxLastModifieldDate :: "Time option"
  MinLastActivityDate :: "Time option"
  MaxLastActivityDate :: "Time option"
  Origins :: "string list"
  TargetCountries :: "string list"
  TargetIndustries :: "string list"
  Motivations :: "string list"
  Fields :: "string list"
  SortFields :: "SortField list"

record IndicatorRequest =
  Parameter :: string
  Filter :: string
  Value :: string
  Sort :: "SortField option"
  Page :: int
  PerPage :: int

record SearchIOCsRequest = Paging +
  Types :: "string list"
  Values :: "string list"
  Policies :: "string list"
  ShareLevels :: "string list"
  Sources :: "string list"
  FromExpirationTimestamp :: "Time option"
  ToExpirationTimestamp :: "Time option"
  Sort :: "SortField option"

section \<open>The parameter encoder\<close>

definition addString :: "string \<Rightarrow> string \<Rightarrow> Values \<Rightarrow> Values" where
  "addString name val params = (if val \<noteq> [] then Add name val params else params)"

definition addTime :: "string \<Rightarrow> Time option \<Rightarrow> Values \<Rightarrow> Values" where
  "addTime name t params =
     (case t of
        None \<Rightarrow> params
      | Some tv \<Rightarrow> if \<not> IsZero tv then Add name (FormatInt10 (Unix tv)) params else params)"

fun addStringArr :: "string \<Rightarrow> string list \<Rightarrow> Values \<Rightarrow> Values" where
  "addStringArr name [] params = params"
| "addStringArr name (v # val) params = addStringArr name val (addString name v params)"

fun addSortFields :: "string \<Rightarrow> SortField list \<Rightarrow> Values \<Rightarrow> Values" where
  "addSortFields name [] params = params"
| "addSortFields name (sf # sortFields) params =
     (let val = SortField.Name sf @ ''.'';
          val = (if Ascending sf then val @ ''asc'' else val @ ''desc'')
      in addSortFields name sortFields (addString name val params))"

definition addInt :: "string \<Rightarrow> int \<Rightarrow> Values \<Rightarrow> Values" where
  "addInt name val params = addString name (Itoa val) params"

text \<open>
  \<open>addRFCTime\<close> (host family) formats with \<open>t.Format(time.RFC3339)\<close>. The layout engine
  is the standard library's: it is the parameter \<open>rfc3339\<close>.
\<close>

definition addRFCTime :: "(Time \<Rightarrow> string) \<Rightarrow> string \<Rightarrow> Time option \<Rightarrow> Values \<Rightarrow> Values" where
  "addRFCTime rfc3339 name t params =
     (case t of None \<Rightarrow> params | Some tv \<Rightarrow> Add name (rfc3339 tv) params)"

text \<open>
  The encoders take a pointer to the request and assign to its fields: they return the
  request as they leave it, next to the parameters.
\<close>

definition actorRequestToParams :: "ActorRequest \<Rightarrow> Values \<times> ActorRequest" where
  "actorRequestToParams req0 =
     (let req = (if Limit req0 = 0 then req0\<lparr>Limit := 10\<rparr> else req0);
          req = (if length (Fields req) = 0 then req\<lparr>Fields := Fields req @ [BasicFields]\<rparr>
                 else req);
          params = [];
          params = addString ''q'' (Q req) params;
          params = addString ''name'' (ActorRequest.Name req) params;
          params = addString ''description'' (Description req) params;
          params = addTime ''min_last_modified_date'' (MinLastModifiedDate req) params;
          params = addTime ''max_last_modified_date'' (MaxLastModifieldDate req) params;
          params = addTime ''min_last_activity_date'' (MinLastActivityDate req) params;
          params = addTime ''max_last_activity_date'' (MaxLastActivityDate req) params;
          params = addStringArr ''origins'' (Origins req) params;
          params = addStringArr ''target_countries'' (TargetCountries req) params;
          params = addStringArr ''target_industries'' (TargetIndustries req) params;
          params = addStringArr ''motivations'' (Motivations req) params;
          params = addStringArr ''motivations'' (Motivations req) params;
          params = addStringArr ''fields'' (Fields req) params;
          params = addSortFields ''sort'' (SortFields req) params;
          params = addInt ''offset'' (Offset req) params;
          params = addInt ''limit'' (Limit req) params
      in (params, req))"

definition indicatorRequestToParams :: "IndicatorRequest \<Rightarrow> Values \<times> IndicatorRequest" where
  "indicatorRequestToParams req0 =
     (let params = [(Filter req0, [Value req0])];
          params = (case IndicatorRequest.Sort req0 of
                      None \<Rightarrow> params
                    | Some s \<Rightarrow>
                        (let order = (if Ascending s then ''asc'' else ''desc'')
                         in Add ''order'' order (Add ''sort'' (SortField.Name s) params)));
          req = (if Page req0 = 0 then req0\<lparr>Page := 1\<rparr> else req0);
          req = (if PerPage req = 0 then req\<lparr>PerPage := 10\<rparr> else req);
          params = Add ''page'' (Itoa (Page req)) params;
          params = Add ''perPage'' (Itoa (PerPage req)) params
      in (params, req))"

definition searchRequestToParams ::
    "(Time \<Rightarrow> string) \<Rightarrow> SearchIOCsRequest \<Rightarrow> Values \<times> SearchIOCsRequest" where
  "searchRequestToParams rfc3339 req =
     (let params = [];
          params = addStringArr ''types'' (Types req) params;
          params = addStringArr ''values'' (Values req) params;
          params = addStringArr ''policies'' (Policies req) params;
          params = addStringArr ''share_levels'' (ShareLevels req) params;
          params = addStringArr ''sources'' (Sources req) params;
          params = addRFCTime rfc3339 ''from.expiration_timestamp''
                     (FromExpirationTimestamp req) params;
          params = addRFCTime rfc3339 ''to.expiration_timestamp''
                     (ToExpirationTimestamp req) params;
          params = (case SearchIOCsRequest.Sort req of
                      None \<Rightarrow> params
                    | Some s \<Rightarrow> addSortFields ''sort'' [s] params);
          params = (if Limit req \<noteq> 0 then addInt ''limit'' (Limit req) params else params);
          params = (if Offset req \<noteq> 0 then addInt ''offset'' (Offset req) params else params)
      in (params, req))"

section \<open>The transport client\<close>

subsection \<open>Requests, responses and what the program can observe of the outside\<close>

record Request =
  Method :: string
  URL :: string
  Header :: "(string \<times> string) list"
  ReqBody :: "bytes option"

text \<open>
  A response body is an \<open>io.ReadCloser\<close>: the bytes not read yet, and the error with which
  reading ends when it does not end with \<open>io.EOF\<close>. Its \<open>kind\<close> tells which object it is:
  the body that the HTTP client answered (\<open>FromClient\<close>), the sentinel \<open>http.NoBody\<close> that
  the HTTP client answers for a response without content, or the reader over the same bytes
  that \<open>httputil.DumpResponse\<close> leaves in \<open>resp.Body\<close> (\<open>FromDump\<close>). \<open>Body\<close> is \<open>None\<close>
  for the nil interface value. A \<open>sink\<close> is the caller's \<open>io.Writer\<close>: what it has been
  given so far, and the error with which it refuses writes when it does.
\<close>

datatype body_kind = FromClient | NoBody | FromDump

record stream =
  unread :: bytes
  read_err :: "string option"
  kind :: body_kind

record Response =
  StatusCode :: int
  Body :: "stream option"

record sink =
  written :: bytes
  write_err :: "string option"

text \<open>
  \<open>HTTPClient\<close> is what \<open>(*http.Client).Do\<close> answers to a request. \<open>Logger\<close> is a
  \<open>*log.Logger\<close>, known by its prefix.
\<close>

type_synonym HTTPClient = "Request \<Rightarrow> string + Response"

datatype Logger = Logger string

text \<open>
  The functions of the standard library that the client calls are parameters, collected in one
  record: \<open>url_Parse\<close> answers the error of \<open>url.Parse\<close> or the \<open>Scheme\<close> of the parsed URL;
  \<open>Response_Write\<close> is the text that \<open>httputil.DumpResponse\<close> prints for a status and the
  bytes of a body.
\<close>

record stdlib =
  url_Parse :: "string \<Rightarrow> string + string"
  DefaultClient :: HTTPClient
  Encode :: "Values \<Rightarrow> string"
  NewRequest :: "string \<Rightarrow> string \<Rightarrow> bytes option \<Rightarrow> string + Request"
  StatusText :: "int \<Rightarrow> string"
  DumpRequestOut :: "Request \<Rightarrow> string + string"
  Response_Write :: "int \<Rightarrow> bytes \<Rightarrow> string + string"
  BasicAuth :: "string \<Rightarrow> string \<Rightarrow> string"

text \<open>
  The effects of the client on the outside: the lines given to loggers, the requests handed
  to the HTTP client, the number of JSON decodings started, and what has happened to the
  bodies that the HTTP client answered: \<open>closed\<close> is the number of \<open>Close\<close> calls made on
  them, by the client itself or by the library on its behalf, and \<open>drained\<close> is the number of
  times one of them has been read until its end was seen, by \<open>httputil.DumpResponse\<close> or by
  \<open>io.Copy\<close> (the JSON decoder stops behind the first value and is not counted; neither is
  the sentinel \<open>http.NoBody\<close>, which has nothing to read).
\<close>

record world =
  logged :: "(Logger \<times> string) list"
  sent :: "Request list"
  closed :: nat
  decoded :: nat
  drained :: nat

text \<open>
  The fields \<open>id\<close> and \<open>c\<close> of the struct \<open>client\<close> are \<open>id'\<close> and \<open>c'\<close>. \<open>Header_Set\<close>
  is \<open>req.Header.Set\<close>: it replaces the values of the name; the name is kept as written,
  where the library stores its canonical form.
\<close>

record client =
  id' :: string
  key :: string
  url :: string
  errorlog :: "Logger option"
  tracelog :: "Logger option"
  c' :: HTTPClient

type_synonym OptionFunc = "client \<Rightarrow> world \<Rightarrow> error option \<times> client \<times> world"

definition Error_string :: "error \<Rightarrow> string" where
  "Error_string e =
     (case e of Error code msg \<Rightarrow> code @ '': '' @ msg | Foreign s \<Rightarrow> s | Panic \<Rightarrow> ''panic'')"

definition Printf :: "Logger \<Rightarrow> string \<Rightarrow> world \<Rightarrow> world" where
  "Printf lg line w = w\<lparr>logged := logged w @ [(lg, line)]\<rparr>"

definition errorf :: "client \<Rightarrow> string \<Rightarrow> world \<Rightarrow> world" where
  "errorf cl line w = (case errorlog cl of None \<Rightarrow> w | Some lg \<Rightarrow> Printf lg line w)"

definition tracef :: "client \<Rightarrow> string \<Rightarrow> world \<Rightarrow> world" where
  "tracef cl line w = (case tracelog cl of None \<Rightarrow> w | Some lg \<Rightarrow> Printf lg line w)"

definition HasSuffix :: "string \<Rightarrow> string \<Rightarrow> bool" where
  "HasSuffix s suffix =
     (length s \<ge> length suffix \<and> drop (length s - length suffix) s = suffix)"

definition Header_Set :: "string \<Rightarrow> string \<Rightarrow> Request \<Rightarrow> Request" where
  "Header_Set k v req = req\<lparr>Header := (k, v) # filter (\<lambda>kv. fst kv \<noteq> k) (Header req)\<rparr>"

subsection \<open>Construction\<close>

text \<open>
  \<open>run_options\<close> is the loop \<open>for _, option := range options\<close> of \<open>newClient\<close> and of
  \<open>New\<close>: it stops at the first option that answers an error.
\<close>

fun run_options :: "OptionFunc list \<Rightarrow> client \<Rightarrow> world \<Rightarrow> (error + client) \<times> world" where
  "run_options [] cl w = (Inr cl, w)"
| "run_options (option # options) cl w =
     (case option cl w of
        (Some err, cl', w') \<Rightarrow> (Inl err, w')
      | (None, cl', w') \<Rightarrow> run_options options cl' w')"

definition newClient :: "stdlib \<Rightarrow> OptionFunc list \<Rightarrow> world \<Rightarrow> (error + client) \<times> world" where
  "newClient std options w =
     (case run_options options
             \<lparr>id' = [], key = [], url = [], errorlog = None, tracelog = None,
              c' = DefaultClient std\<rparr> w of
        (Inl err, w) \<Rightarrow> (Inl err, w)
      | (Inr cl, w) \<Rightarrow>
          (let w = tracef cl (''Using URL ['' @ url cl @ '']'' @ [CHR 0x0A]) w
           in if id' cl = [] \<or> key cl = []
              then (Inl ErrMissingCredentials, errorf cl ''Missing credentials'' w)
              else (Inr cl, w)))"

text \<open>\<open>New\<close> is the constructor of the older combined client of \<open>cs.go\<close>.\<close>

definition New :: "stdlib \<Rightarrow> OptionFunc list \<Rightarrow> world \<Rightarrow> (error + client) \<times> world" where
  "New std options w =
     (case run_options options
             \<lparr>id' = [], key = [], url = DefaultURL, errorlog = None, tracelog = None,
              c' = DefaultClient std\<rparr> w of
        (Inl err, w) \<Rightarrow> (Inl err, w)
      | (Inr cl, w) \<Rightarrow>
          (let w = tracef cl (''Using URL ['' @ url cl @ '']'' @ [CHR 0x0A]) w
           in if id' cl = [] \<or> key cl = []
              then (Inl ErrMissingCredentials, errorf cl ''Missing credentials'' w)
              else (Inr cl, w)))"

definition SetCredentials :: "string \<Rightarrow> string \<Rightarrow> OptionFunc" where
  "SetCredentials id0 key0 = (\<lambda>cl w.
     if id0 = [] \<or> key0 = []
     then (Some ErrMissingCredentials, cl,
           errorf cl (Error_string ErrMissingCredentials @ [CHR 0x0A]) w)
     else (None, cl\<lparr>id' := id0, key := key0\<rparr>, w))"

definition SetHTTPClient :: "stdlib \<Rightarrow> HTTPClient option \<Rightarrow> OptionFunc" where
  "SetHTTPClient std httpClient = (\<lambda>cl w.
     case httpClient of
       Some hc \<Rightarrow> (None, cl\<lparr>c' := hc\<rparr>, w)
     | None \<Rightarrow> (None, cl\<lparr>c' := DefaultClient std\<rparr>, w))"

definition SetURL :: "stdlib \<Rightarrow> string \<Rightarrow> OptionFunc" where
  "SetURL std rawurl0 = (\<lambda>cl w.
     let rawurl = (if rawurl0 = [] then DefaultURL else rawurl0)
     in case url_Parse std rawurl of
          Inl err \<Rightarrow>
            (Some (Foreign err), cl,
             errorf cl (''Invalid URL ['' @ rawurl @ ''] - '' @ err @ [CHR 0x0A]) w)
        | Inr scheme \<Rightarrow>
            if scheme \<noteq> ''http'' \<and> scheme \<noteq> ''https''
            then (let err = Error ''bad_url'' (''Invalid schema specified ['' @ rawurl @ '']'')
                  in (Some err, cl, errorf cl (Error_string err) w))
            else (let cl = cl\<lparr>url := rawurl\<rparr>;
                      cl = (if \<not> HasSuffix (url cl) ''/'' then cl\<lparr>url := url cl @ ''/''\<rparr>
                            else cl)
                  in (None, cl, w)))"

definition SetErrorLog :: "Logger option \<Rightarrow> OptionFunc" where
  "SetErrorLog logger = (\<lambda>cl w. (None, cl\<lparr>errorlog := logger\<rparr>, w))"

definition SetTraceLog :: "Logger option \<Rightarrow> OptionFunc" where
  "SetTraceLog logger = (\<lambda>cl w. (None, cl\<lparr>tracelog := logger\<rparr>, w))"

text \<open>
  \<open>Intel\<close> and \<open>Host\<close> are structs that embed \<open>*client\<close> and nothing else: both are the
  client here.
\<close>

definition NewIntel :: "stdlib \<Rightarrow> OptionFunc list \<Rightarrow> world \<Rightarrow> (error + client) \<times> world" where
  "NewIntel std options w = newClient std (SetURL std DefaultURL # options) w"

definition NewHost :: "stdlib \<Rightarrow> OptionFunc list \<Rightarrow> world \<Rightarrow> (error + client) \<times> world" where
  "NewHost std options w = newClient std (SetURL std DefaultURLHost # options) w"

subsection \<open>Sending a request\<close>

text \<open>
  \<open>DumpResponse\<close> is \<open>httputil.DumpResponse(resp, true)\<close>. Its \<open>drainBody\<close> leaves a nil
  body and \<open>http.NoBody\<close> alone; any other body it reads to its end; when reading ends with
  an error it answers that error, and the bytes read are gone; otherwise it calls \<open>Close\<close> on
  the body it has read and leaves in \<open>resp.Body\<close> a reader that yields the same bytes.
  (\<open>Close\<close> is taken not to fail.) The reading and the \<open>Close\<close> are counted when the body
  is the one that the HTTP client answered. \<open>io_Copy\<close> is \<open>io.Copy\<close>: nothing is written
  when there is nothing to read; \<open>copy_drains\<close> tells whether it reads its source until the
  end is seen, which it does unless a write fails.
\<close>

definition DumpResponse ::
    "stdlib \<Rightarrow> Response \<Rightarrow> world \<Rightarrow> (string + string) \<times> Response \<times> world" where
  "DumpResponse std resp w =
     (case Body resp of
        None \<Rightarrow> (Response_Write std (StatusCode resp) [], resp, w)
      | Some b \<Rightarrow>
          if kind b = NoBody then (Response_Write std (StatusCode resp) [], resp, w)
          else (let w1 = (if kind b = FromClient then w\<lparr>drained := drained w + 1\<rparr> else w)
                in case read_err b of
                     Some e \<Rightarrow> (Inl e, resp\<lparr>Body := Some (b\<lparr>unread := []\<rparr>)\<rparr>, w1)
                   | None \<Rightarrow>
                       (Response_Write std (StatusCode resp) (unread b),
                        resp\<lparr>Body := Some (b\<lparr>kind := FromDump\<rparr>)\<rparr>,
                        if kind b = FromClient then w1\<lparr>closed := closed w1 + 1\<rparr> else w1)))"

definition copy_drains :: "sink \<Rightarrow> stream \<Rightarrow> bool" where
  "copy_drains dst src = (unread src = [] \<or> write_err dst = None)"

definition io_Copy :: "sink \<Rightarrow> stream \<Rightarrow> string option \<times> sink" where
  "io_Copy dst src =
     (if unread src = [] then (read_err src, dst)
      else case write_err dst of
             Some e \<Rightarrow> (Some e, dst)
           | None \<Rightarrow> (read_err src, dst\<lparr>written := written dst @ unread src\<rparr>))"

definition dumpRequest :: "stdlib \<Rightarrow> client \<Rightarrow> Request \<Rightarrow> world \<Rightarrow> world" where
  "dumpRequest std cl req w =
     (case tracelog cl of
        None \<Rightarrow> w
      | Some lg \<Rightarrow>
          (case DumpRequestOut std req of
             Inr out \<Rightarrow> tracef cl (out @ [CHR 0x0A]) w
           | Inl err \<Rightarrow> w))"

definition dumpResponse :: "stdlib \<Rightarrow> client \<Rightarrow> Response \<Rightarrow> world \<Rightarrow> Response \<times> world" where
  "dumpResponse std cl resp w =
     (case tracelog cl of
        None \<Rightarrow> (resp, w)
      | Some lg \<Rightarrow>
          (case DumpResponse std resp w of
             (Inr out, resp', w') \<Rightarrow> (resp', tracef cl (out @ [CHR 0x0A]) w')
           | (Inl err, resp', w') \<Rightarrow> (resp', w')))"

definition handleError ::
    "stdlib \<Rightarrow> client \<Rightarrow> Response \<Rightarrow> world \<Rightarrow> error option \<times> Response \<times> world" where
  "handleError std cl resp0 w0 =
     (if StatusCode resp0 < 200 \<or> StatusCode resp0 \<ge> 300
      then (let (resp, w) =
                  (case errorlog cl of
                     None \<Rightarrow> (resp0, w0)
                   | Some lg \<Rightarrow>
                       (case DumpResponse std resp0 w0 of
                          (Inr out, resp', w') \<Rightarrow> (resp', errorf cl (out @ [CHR 0x0A]) w')
                        | (Inl err, resp', w') \<Rightarrow> (resp', w')));
                msg = ''Unexpected status code: '' @ Itoa (StatusCode resp) @ '' ('' @
                      StatusText std (StatusCode resp) @ '')'';
                w = errorf cl msg w
            in (Some (Error ''http_error'' msg), resp, w))
      else (None, resp0, w0))"

text \<open>
  The \<open>result\<close> argument of \<open>do\<close> is an \<open>interface{}\<close>: nil, an \<open>io.Writer\<close>, or a pointer
  to the value that the JSON decoder fills. The dynamic type of the pointer decides how
  JSON is decoded, so the pointer comes with its decoder, which answers its error, the value
  as it leaves it, and what is left of the body.
\<close>

type_synonym 'v decoder = "stream \<Rightarrow> 'v \<Rightarrow> string option \<times> 'v \<times> stream"

datatype 'v target = Nil | Writer sink | Pointer "'v decoder" 'v

text \<open>
  \<open>do_response\<close> is the part of \<open>do\<close> that follows the \<open>defer\<close> statement (from the call
  of \<open>handleError\<close> to the last \<open>return\<close>). Reading from a nil body panics.
\<close>

definition do_response ::
    "stdlib \<Rightarrow> client \<Rightarrow> Response \<Rightarrow> 'v target \<Rightarrow> world \<Rightarrow> error option \<times> 'v target \<times> world" where
  "do_response std cl resp0 result w0 =
     (case handleError std cl resp0 w0 of
        (Some err, resp, w) \<Rightarrow> (Some err, result, w)
      | (None, resp1, w1) \<Rightarrow>
          (let (resp, w) = dumpResponse std cl resp1 w1
           in case result of
                Nil \<Rightarrow> (None, result, w)
              | Writer dst \<Rightarrow>
                  (case Body resp of
                     None \<Rightarrow> (Some Panic, result, w)
                   | Some src \<Rightarrow>
                       (let w = (if kind src = FromClient \<and> copy_drains dst src
                                 then w\<lparr>drained := drained w + 1\<rparr> else w)
                        in case io_Copy dst src of
                             (Some err, dst') \<Rightarrow> (Some (Foreign err), Writer dst', w)
                           | (None, dst') \<Rightarrow> (None, Writer dst', w)))
              | Pointer dec v \<Rightarrow>
                  (case Body resp of
                     None \<Rightarrow> (Some Panic, result, w\<lparr>decoded := decoded w + 1\<rparr>)
                   | Some src \<Rightarrow>
                       (case dec src v of
                          (Some err, v', src') \<Rightarrow>
                            (let w = w\<lparr>decoded := decoded w + 1\<rparr>;
                                 w = (case errorlog cl of
                                        None \<Rightarrow> w
                                      | Some lg \<Rightarrow>
                                          (case DumpResponse std (resp\<lparr>Body := Some src'\<rparr>) w of
                                             (Inr out, resp', w') \<Rightarrow>
                                               errorf cl (out @ [CHR 0x0A]) w'
                                           | (Inl e, resp', w') \<Rightarrow> w'))
                             in (Some (Foreign err), Pointer dec v', w))
                        | (None, v', src') \<Rightarrow>
                            (None, Pointer dec v', w\<lparr>decoded := decoded w + 1\<rparr>)))))"

text \<open>
  \<open>do\<close> itself. The deferred \<open>resp.Body.Close()\<close> is registered when the body is not nil,
  on the body that the HTTP client answered, and runs when \<open>do\<close> returns, whatever the
  path and whatever \<open>resp.Body\<close> holds by then. The clock readings that the two trace
  lines print are left out of their text.
\<close>

definition client_do ::
    "stdlib \<Rightarrow> client \<Rightarrow> string \<Rightarrow> string \<Rightarrow> Values \<Rightarrow> bytes option \<Rightarrow> 'v target \<Rightarrow>
     (Request \<Rightarrow> Request) \<Rightarrow> world \<Rightarrow> error option \<times> 'v target \<times> world" where
  "client_do std cl method rawurl0 params body result authFunc w0 =
     (let rawurl = (if length params > 0 then rawurl0 @ ''?'' @ Encode std params else rawurl0)
      in case NewRequest std method (url cl @ rawurl) body of
           Inl err \<Rightarrow> (Some (Foreign err), result, w0)
         | Inr req0 \<Rightarrow>
             (let req = Header_Set ''Accept'' ''application/json'' req0;
                  req = authFunc req;
                  w = (case tracelog cl of
                         None \<Rightarrow> w0
                       | Some lg \<Rightarrow>
                           tracef cl (''Start request '' @ rawurl) (dumpRequest std cl req w0));
                  answer = c' cl req;
                  w = w\<lparr>sent := sent w @ [req]\<rparr>;
                  w = (case tracelog cl of
                         None \<Rightarrow> w
                       | Some lg \<Rightarrow> tracef cl (''End request '' @ rawurl) w)
              in case answer of
                   Inl err \<Rightarrow> (Some (Foreign err), result, w)
                 | Inr resp \<Rightarrow>
                     (let (err, result', w') = do_response std cl resp result w
                      in (err, result',
                          (case Body resp of
                             None \<Rightarrow> w'
                           | Some b \<Rightarrow> w'\<lparr>closed := closed w' + 1\<rparr>)))))"

section \<open>Endpoint methods\<close>

definition pointee :: "'v target \<Rightarrow> 'v \<Rightarrow> 'v" where
  "pointee result v0 = (case result of Pointer dec v \<Rightarrow> v | Writer dst \<Rightarrow> v0 | Nil \<Rightarrow> v0)"

definition Intel_authFunc :: "client \<Rightarrow> Request \<Rightarrow> Request" where
  "Intel_authFunc cl req = Header_Set AuthHeaderKey (key cl) (Header_Set AuthHeaderID (id' cl) req)"

definition Host_authFunc :: "stdlib \<Rightarrow> client \<Rightarrow> Request \<Rightarrow> Request" where
  "Host_authFunc std cl req = Header_Set ''Authorization'' (BasicAuth std (id' cl) (key cl)) req"

definition Actors ::
    "stdlib \<Rightarrow> (real \<Rightarrow> int) \<Rightarrow> ActorResponse decoder \<Rightarrow> client \<Rightarrow> ActorRequest \<Rightarrow> world \<Rightarrow>
     (ActorResponse \<times> error option) \<times> ActorRequest \<times> world" where
  "Actors std oor dec cl req0 w0 =
     (let resp = \<lparr>Meta_Paging_Total = 0, Meta_Paging_Offset = 0, Meta_Paging_Limit = 0,
                  QueryTime = 0, Resources = []\<rparr>;
          (params, req) = actorRequestToParams req0;
          (err, result, w) =
            client_do std cl ''GET'' ''actor/v1/queries/actors'' params None (Pointer dec resp)
              (Intel_authFunc cl) w0;
          resp = pointee result resp;
          resp = (if err = None
                  then resp\<lparr>Resources := map (Resource_convertDates oor) (Resources resp)\<rparr>
                  else resp)
      in ((resp, err), req, w))"

definition ActorsJSON ::
    "stdlib \<Rightarrow> client \<Rightarrow> ActorRequest \<Rightarrow> sink \<Rightarrow> world \<Rightarrow>
     error option \<times> ActorRequest \<times> sink \<times> world" where
  "ActorsJSON std cl req0 wr w0 =
     (let (params, req) = actorRequestToParams req0;
          (err, result, w) =
            client_do std cl ''GET'' ''actor/v1/queries/actors'' params None
              (Writer wr :: unit target) (Intel_authFunc cl) w0
      in (err, req, (case result of Writer wr' \<Rightarrow> wr' | Pointer dec v \<Rightarrow> wr | Nil \<Rightarrow> wr), w))"

text \<open>
  \<open>Indicators\<close> answers \<open>nil\<close> for the slice when the request is refused: the nil slice is
  the empty list.
\<close>

definition Indicators ::
    "stdlib \<Rightarrow> (real \<Rightarrow> int) \<Rightarrow> IndicatorResponse list decoder \<Rightarrow> client \<Rightarrow> IndicatorRequest \<Rightarrow>
     world \<Rightarrow> (IndicatorResponse list \<times> error option) \<times> IndicatorRequest \<times> world" where
  "Indicators std oor dec cl req0 w0 =
     (if Parameter req0 = [] \<or> Filter req0 = [] \<or> Value req0 = []
      then (([], Some ErrMissingParams), req0, w0)
      else (let resp = [];
                (params, req) = indicatorRequestToParams req0;
                (err, result, w) =
                  client_do std cl ''GET'' (''indicator/v1/search/'' @ Parameter req) params None
                    (Pointer dec resp) (Intel_authFunc cl) w0;
                resp = pointee result resp;
                resp = (if err = None then map (IndicatorResponse_convertDates oor) resp
                        else resp)
            in ((resp, err), req, w)))"

definition IndicatorsJSON ::
    "stdlib \<Rightarrow> client \<Rightarrow> IndicatorRequest \<Rightarrow> sink \<Rightarrow> world \<Rightarrow>
     error option \<times> IndicatorRequest \<times> sink \<times> world" where
  "IndicatorsJSON std cl req0 wr w0 =
     (if Parameter req0 = [] \<or> Filter req0 = [] \<or> Value req0 = []
      then (Some ErrMissingParams, req0, wr, w0)
      else (let (params, req) = indicatorRequestToParams req0;
                (err, result, w) =
                  client_do std cl ''GET'' (''indicator/v1/search/'' @ Parameter req) params None
                    (Writer wr :: unit target) (Intel_authFunc cl) w0
            in (err, req, (case result of Writer wr' \<Rightarrow> wr' | Pointer dec v \<Rightarrow> wr | Nil \<Rightarrow> wr),
                w)))"

definition SearchIOCsJSON ::
    "stdlib \<Rightarrow> (Time \<Rightarrow> string) \<Rightarrow> client \<Rightarrow> SearchIOCsRequest \<Rightarrow> sink \<Rightarrow> world \<Rightarrow>
     error option \<times> SearchIOCsRequest \<times> sink \<times> world" where
  "SearchIOCsJSON std rfc3339 cl req0 wr w0 =
     (let (params, req) = searchRequestToParams rfc3339 req0;
          (err, result, w) =
            client_do std cl ''GET'' ''indicators/queries/iocs/v1'' params None
              (Writer wr :: unit target) (Host_authFunc std cl) w0
      in (err, req, (case result of Writer wr' \<Rightarrow> wr' | Pointer dec v \<Rightarrow> wr | Nil \<Rightarrow> wr), w))"

section \<open>Values for the worked examples\<close>

text \<open>The zero values of the structs, as \<open>ActorRequest{}\<close> and the like give them in Go.\<close>

definition zero_ActorRequest :: ActorRequest where
  "zero_ActorRequest =
     \<lparr>Offset = 0, Limit = 0, Q = [], Name = [], Description = [],
      MinLastModifiedDate = None, MaxLastModifieldDate = None,
      MinLastActivityDate = None, MaxLastActivityDate = None,
      Origins = [], TargetCountries = [], TargetIndustries = [], Motivations = [],
      Fields = [], SortFields = []\<rparr>"

definition zero_IndicatorRequest :: IndicatorRequest where
  "zero_IndicatorRequest =
     \<lparr>Parameter = [], Filter = [], Value = [], Sort = None, Page = 0, PerPage = 0\<rparr>"

definition zero_SearchIOCsRequest :: SearchIOCsRequest where
  "zero_SearchIOCsRequest =
     \<lparr>Offset = 0, Limit = 0, Types = [], Values = [], Policies = [], ShareLevels = [],
      Sources = [], FromExpirationTimestamp = None, ToExpirationTimestamp = None,
      Sort = None\<rparr>"

definition zero_IndicatorResponse :: IndicatorResponse where
  "zero_IndicatorResponse =
     \<lparr>Indicator = [], Type = [], LastUpdatedEpoch = 0, LastUpdated = zero_Time,
      PublishedDateEpoch = 0, PublishedDate = zero_Time, MaliciousConfidence = [],
      Reports = [], Actors = [], MalwareFamilies = [], KillChains = [], DomainTypes = [],
      IPAddressTypes = [], Relations = [], Labels = []\<rparr>"

text \<open>
  On amd64 the conversion of a \<open>float64\<close> that does not fit answers the smallest
  \<open>int64\<close>.
\<close>

definition oor_amd64 :: "real \<Rightarrow> int" where
  "oor_amd64 x = - (2 ^ 63)"

text \<open>
  A stand-in for the standard library: a URL parser that knows the two schemes, no network
  behind the default HTTP client, and plain renderings for the rest. \<open>answering resp\<close> is
  a configured client whose HTTP client answers \<open>resp\<close> to every request, and
  \<open>logging resp\<close> is the same client with an error log, as the command-line programs set
  one.
\<close>

definition stub_std :: stdlib where
  "stub_std =
     \<lparr>url_Parse = (\<lambda>s. if take 8 s = ''https://'' then Inr ''https''
                        else if take 7 s = ''http://'' then Inr ''http''
                        else if take 1 s = ''%'' then Inl ''invalid URL escape''
                        else Inr []),
      DefaultClient = (\<lambda>req. Inl ''no network''),
      Encode = (\<lambda>params.
                  concat (map (\<lambda>kv. concat (map (\<lambda>v. fst kv @ ''='' @ v @ ''&'') (snd kv)))
                            params)),
      NewRequest = (\<lambda>m u b. Inr \<lparr>Method = m, URL = u, Header = [], ReqBody = b\<rparr>),
      StatusText = (\<lambda>n. if n = 404 then ''Not Found'' else if n = 200 then ''OK'' else []),
      DumpRequestOut = (\<lambda>req. Inr (Method req @ '' '' @ Request.URL req)),
      Response_Write = (\<lambda>n b. Inr (Itoa n @ '' '' @ b)),
      BasicAuth = (\<lambda>u p. ''Basic '' @ u @ '':'' @ p)\<rparr>"

definition zero_world :: world where
  "zero_world = \<lparr>logged = [], sent = [], closed = 0, decoded = 0, drained = 0\<rparr>"

definition answering :: "Response \<Rightarrow> client" where
  "answering resp =
     \<lparr>id' = ''id'', key = ''secret'', url = ''https://localhost/'', errorlog = None,
      tracelog = None, c' = (\<lambda>req. Inr resp)\<rparr>"

definition not_found :: Response where
  "not_found =
     \<lparr>StatusCode = 404,
      Body = Some \<lparr>unread = ''gone'', read_err = None, kind = FromClient\<rparr>\<rparr>"

definition ok_not_json :: Response where
  "ok_not_json =
     \<lparr>StatusCode = 200,
      Body = Some \<lparr>unread = ''{not json'', read_err = None, kind = FromClient\<rparr>\<rparr>"

definition logging :: "Response \<Rightarrow> client" where
  "logging resp = (answering resp)\<lparr>errorlog := Some (Logger ''error'')\<rparr>"

definition empty_sink :: sink where
  "empty_sink = \<lparr>written = [], write_err = None\<rparr>"

section \<open>Properties of the parameter encoder\<close>

subsection \<open>What each helper adds under each key\<close>

lemma nat_digits_not_Nil: "nat_digits n \<noteq> []"
  by (subst nat_digits.simps) simp

lemma Itoa_not_Nil: "Itoa i \<noteq> []"
  by (simp add: Itoa_def nat_digits_not_Nil)

lemma Itoa_small: "Itoa 0 = ''0''" "Itoa 1 = ''1''" "Itoa 10 = ''10''"
  by (simp_all add: Itoa_def nat_digits.simps)

lemma values_at_Nil: "values_at [] k = []"
  by (simp add: values_at_def)

lemma values_at_single: "values_at [(name, vs)] k = (if k = name then vs else [])"
  by (simp add: values_at_def)

lemma values_at_Add:
  "values_at (Add name val params) k =
     (if k = name then values_at params k @ [val] else values_at params k)"
  by (induction params) (auto simp: values_at_def)

lemma values_at_addString:
  "values_at (addString name val params) k =
     (if k = name \<and> val \<noteq> [] then values_at params k @ [val] else values_at params k)"
  by (simp add: addString_def values_at_Add)

lemma values_at_addStringArr:
  "values_at (addStringArr name val params) k =
     (if k = name then values_at params k @ filter (\<lambda>v. v \<noteq> []) val
      else values_at params k)"
  by (induction val arbitrary: params) (simp_all add: values_at_addString)

lemma values_at_addSortFields:
  "values_at (addSortFields name sortFields params) k =
     (if k = name
      then values_at params k @
           map (\<lambda>sf. SortField.Name sf @ ''.'' @ (if Ascending sf then ''asc'' else ''desc''))
             sortFields
      else values_at params k)"
  by (induction sortFields arbitrary: params) (simp_all add: values_at_addString Let_def)

lemma values_at_addInt:
  "values_at (addInt name val params) k =
     (if k = name then values_at params k @ [Itoa val] else values_at params k)"
  by (simp add: addInt_def values_at_addString Itoa_not_Nil)

lemma values_at_addTime:
  "values_at (addTime name t params) k =
     (if k = name \<and> t \<noteq> None \<and> \<not> IsZero (the t)
      then values_at params k @ [FormatInt10 (Unix (the t))] else values_at params k)"
  by (cases t) (simp_all add: addTime_def values_at_Add)

lemma values_at_addRFCTime:
  "values_at (addRFCTime rfc3339 name t params) k =
     (if k = name \<and> t \<noteq> None then values_at params k @ [rfc3339 (the t)]
      else values_at params k)"
  by (cases t) (simp_all add: addRFCTime_def values_at_Add)

lemmas values_at_simps = values_at_Nil values_at_single values_at_Add values_at_addString
  values_at_addStringArr values_at_addSortFields values_at_addInt values_at_addTime
  values_at_addRFCTime

subsection \<open>The three encoders, key by key\<close>

lemma actorRequestToParams_request:
  "snd (actorRequestToParams req) =
     req\<lparr>Limit := (if Limit req = 0 then 10 else Limit req),
         Fields := (if Fields req = [] then [BasicFields] else Fields req)\<rparr>"
  by (simp add: actorRequestToParams_def Let_def)

lemma actor_values_at:
  "values_at (fst (actorRequestToParams req)) k =
     (if k = ''q'' \<and> Q req \<noteq> [] then [Q req] else []) @
     (if k = ''name'' \<and> Name req \<noteq> [] then [Name req] else []) @
     (if k = ''description'' \<and> Description req \<noteq> [] then [Description req] else []) @
     values_at (addTime ''min_last_modified_date'' (MinLastModifiedDate req) []) k @
     values_at (addTime ''max_last_modified_date'' (MaxLastModifieldDate req) []) k @
     values_at (addTime ''min_last_activity_date'' (MinLastActivityDate req) []) k @
     values_at (addTime ''max_last_activity_date'' (MaxLastActivityDate req) []) k @
     (if k = ''origins'' then filter (\<lambda>v. v \<noteq> []) (Origins req) else []) @
     (if k = ''target_countries'' then filter (\<lambda>v. v \<noteq> []) (TargetCountries req) else []) @
     (if k = ''target_industries'' then filter (\<lambda>v. v \<noteq> []) (TargetIndustries req)
      else []) @
     (if k = ''motivations''
      then filter (\<lambda>v. v \<noteq> []) (Motivations req) @ filter (\<lambda>v. v \<noteq> []) (Motivations req)
      else []) @
     (if k = ''fields''
      then (if Fields req = [] then [BasicFields] else filter (\<lambda>v. v \<noteq> []) (Fields req))
      else []) @
     (if k = ''sort''
      then map (\<lambda>sf. SortField.Name sf @ ''.'' @ (if Ascending sf then ''asc'' else ''desc''))
             (SortFields req)
      else []) @
     (if k = ''offset'' then [Itoa (Offset req)] else []) @
     (if k = ''limit'' then [Itoa (if Limit req = 0 then 10 else Limit req)] else [])"
  by (simp add: actorRequestToParams_def Let_def values_at_simps BasicFields_def)

lemma indicatorRequestToParams_request:
  "snd (indicatorRequestToParams req) =
     req\<lparr>Page := (if Page req = 0 then 1 else Page req),
         PerPage := (if PerPage req = 0 then 10 else PerPage req)\<rparr>"
  by (simp add: indicatorRequestToParams_def Let_def)

lemma indicator_values_at:
  "values_at (fst (indicatorRequestToParams req)) k =
     (if k = Filter req then [Value req] else []) @
     (case IndicatorRequest.Sort req of
        None \<Rightarrow> []
      | Some sf \<Rightarrow> (if k = ''sort'' then [SortField.Name sf] else []) @
                   (if k = ''order'' then [if Ascending sf then ''asc'' else ''desc''] else [])) @
     (if k = ''page'' then [Itoa (if Page req = 0 then 1 else Page req)] else []) @
     (if k = ''perPage'' then [Itoa (if PerPage req = 0 then 10 else PerPage req)] else [])"
  by (simp add: indicatorRequestToParams_def Let_def values_at_simps del: Add.simps
        split: option.split)

lemma searchRequestToParams_request: "snd (searchRequestToParams rfc3339 req) = req"
  by (simp add: searchRequestToParams_def Let_def)

lemma search_values_at:
  "values_at (fst (searchRequestToParams rfc3339 req)) k =
     (if k = ''types'' then filter (\<lambda>v. v \<noteq> []) (Types req) else []) @
     (if k = ''values'' then filter (\<lambda>v. v \<noteq> []) (Values req) else []) @
     (if k = ''policies'' then filter (\<lambda>v. v \<noteq> []) (Policies req) else []) @
     (if k = ''share_levels'' then filter (\<lambda>v. v \<noteq> []) (ShareLevels req) else []) @
     (if k = ''sources'' then filter (\<lambda>v. v \<noteq> []) (Sources req) else []) @
     (case FromExpirationTimestamp req of
        None \<Rightarrow> []
      | Some t \<Rightarrow> if k = ''from.expiration_timestamp'' then [rfc3339 t] else []) @
     (case ToExpirationTimestamp req of
        None \<Rightarrow> []
      | Some t \<Rightarrow> if k = ''to.expiration_timestamp'' then [rfc3339 t] else []) @
     (case SearchIOCsRequest.Sort req of
        None \<Rightarrow> []
      | Some sf \<Rightarrow>
          if k = ''sort''
          then [SortField.Name sf @ ''.'' @ (if Ascending sf then ''asc'' else ''desc'')]
          else []) @
     (if k = ''limit'' \<and> Limit req \<noteq> 0 then [Itoa (Limit req)] else []) @
     (if k = ''offset'' \<and> Offset req \<noteq> 0 then [Itoa (Offset req)] else [])"
  by (simp add: searchRequestToParams_def Let_def values_at_simps split: option.split)

text \<open>
  The line \<open>addStringArr("motivations", req.Motivations, params)\<close> stands twice in
  \<open>actorRequestToParams\<close>: every motivation is sent twice.
\<close>

lemma actor_motivations_twice:
  "values_at (fst (actorRequestToParams req)) ''motivations'' =
     filter (\<lambda>v. v \<noteq> []) (Motivations req) @ filter (\<lambda>v. v \<noteq> []) (Motivations req)"
  by (simp add: actor_values_at values_at_simps)

subsection \<open>List fields\<close>

text \<open>
  Claim C1, as the specification states it: every element of a list field gives exactly one
  entry under the field's key. It does not hold: \<open>addStringArr\<close> hands each element to
  \<open>addString\<close>, which drops the empty string. The list \<open>["a", "", "b"]\<close> of three origins
  gives two entries.
\<close>

theorem list_field_empty_element_counterexample:
  "values_at (fst (actorRequestToParams (zero_ActorRequest\<lparr>Origins := [''a'', [], ''b'']\<rparr>)))
        ''origins'' = [''a'', ''b'']
   \<and> values_at (fst (actorRequestToParams (zero_ActorRequest\<lparr>Origins := [''a'', [], ''b'']\<rparr>)))
        ''origins'' \<noteq> Origins (zero_ActorRequest\<lparr>Origins := [''a'', [], ''b'']\<rparr>)"
  by (simp add: actor_values_at values_at_simps zero_ActorRequest_def)

text \<open>
  Claim C1, amended: \<open>addStringArr\<close> appends under the one key \<open>name\<close> the non-empty
  elements of the list, one entry each, in the order of the list, and leaves every other
  key as it was; so an empty list adds nothing. In an actor request the keys \<open>origins\<close>,
  \<open>target_countries\<close> and \<open>target_industries\<close>, and in an IOC search request the keys
  \<open>types\<close>, \<open>values\<close>, \<open>policies\<close>, \<open>share_levels\<close> and \<open>sources\<close>, hold the non-empty
  elements of their field; the key \<open>fields\<close> of an actor request holds the non-empty
  elements of the field list, or the basic-fields sentinel when that list is empty.
\<close>

theorem list_fields_append_nonempty_elements:
  "values_at (addStringArr name val params) k =
     (if k = name then values_at params k @ filter (\<lambda>v. v \<noteq> []) val
      else values_at params k)
   \<and> values_at (fst (actorRequestToParams areq)) ''origins'' =
       filter (\<lambda>v. v \<noteq> []) (Origins areq)
   \<and> values_at (fst (actorRequestToParams areq)) ''target_countries'' =
       filter (\<lambda>v. v \<noteq> []) (TargetCountries areq)
   \<and> values_at (fst (actorRequestToParams areq)) ''target_industries'' =
       filter (\<lambda>v. v \<noteq> []) (TargetIndustries areq)
   \<and> values_at (fst (actorRequestToParams areq)) ''fields'' =
       (if Fields areq = [] then [BasicFields] else filter (\<lambda>v. v \<noteq> []) (Fields areq))
   \<and> values_at (fst (searchRequestToParams rfc3339 sreq)) ''types'' =
       filter (\<lambda>v. v \<noteq> []) (Types sreq)
   \<and> values_at (fst (searchRequestToParams rfc3339 sreq)) ''values'' =
       filter (\<lambda>v. v \<noteq> []) (Values sreq)
   \<and> values_at (fst (searchRequestToParams rfc3339 sreq)) ''policies'' =
       filter (\<lambda>v. v \<noteq> []) (Policies sreq)
   \<and> values_at (fst (searchRequestToParams rfc3339 sreq)) ''share_levels'' =
       filter (\<lambda>v. v \<noteq> []) (ShareLevels sreq)
   \<and> values_at (fst (searchRequestToParams rfc3339 sreq)) ''sources'' =
       filter (\<lambda>v. v \<noteq> []) (Sources sreq)"
proof (intro conjI)
  show "values_at (addStringArr name val params) k =
     (if k = name then values_at params k @ filter (\<lambda>v. v \<noteq> []) val
      else values_at params k)"
    by (rule values_at_addStringArr)
  show "values_at (fst (actorRequestToParams areq)) ''origins'' =
       filter (\<lambda>v. v \<noteq> []) (Origins areq)"
    by (simp add: actor_values_at values_at_simps)
  show "values_at (fst (actorRequestToParams areq)) ''target_countries'' =
       filter (\<lambda>v. v \<noteq> []) (TargetCountries areq)"
    by (simp add: actor_values_at values_at_simps)
  show "values_at (fst (actorRequestToParams areq)) ''target_industries'' =
       filter (\<lambda>v. v \<noteq> []) (TargetIndustries areq)"
    by (simp add: actor_values_at values_at_simps)
  show "values_at (fst (actorRequestToParams areq)) ''fields'' =
       (if Fields areq = [] then [BasicFields] else filter (\<lambda>v. v \<noteq> []) (Fields areq))"
    by (simp add: actor_values_at values_at_simps)
  show "values_at (fst (searchRequestToParams rfc3339 sreq)) ''types'' =
       filter (\<lambda>v. v \<noteq> []) (Types sreq)"
    by (simp add: search_values_at split: option.split)
  show "values_at (fst (searchRequestToParams rfc3339 sreq)) ''values'' =
       filter (\<lambda>v. v \<noteq> []) (Values sreq)"
    by (simp add: search_values_at split: option.split)
  show "values_at (fst (searchRequestToParams rfc3339 sreq)) ''policies'' =
       filter (\<lambda>v. v \<noteq> []) (Policies sreq)"
    by (simp add: search_values_at split: option.split)
  show "values_at (fst (searchRequestToParams rfc3339 sreq)) ''share_levels'' =
       filter (\<lambda>v. v \<noteq> []) (ShareLevels sreq)"
    by (simp add: search_values_at split: option.split)
  show "values_at (fst (searchRequestToParams rfc3339 sreq)) ''sources'' =
       filter (\<lambda>v. v \<noteq> []) (Sources sreq)"
    by (simp add: search_values_at split: option.split)
qed

text \<open>
  The list \<open>["a", "b"]\<close> gives the key twice, \<open>"a"\<close> then \<open>"b"\<close>, and the empty list gives
  nothing.
\<close>

theorem list_fields_append_nonempty_elements_witness:
  "values_at (addStringArr ''origins'' [''a'', ''b''] []) ''origins'' = [''a'', ''b'']
   \<and> values_at (addStringArr ''origins'' [] [(''q'', [''x''])]) ''origins'' = []
   \<and> values_at (fst (actorRequestToParams (zero_ActorRequest\<lparr>Origins := [''a'', ''b'']\<rparr>)))
        ''origins'' = [''a'', ''b'']"
  using list_fields_append_nonempty_elements
          [of "''origins''" "[''a'', ''b'']" "[]" "''origins''"
              "zero_ActorRequest\<lparr>Origins := [''a'', ''b'']\<rparr>"]
        list_fields_append_nonempty_elements
          [of "''origins''" "[]" "[(''q'', [''x''])]" "''origins''"]
  by (simp add: values_at_def zero_ActorRequest_def)

subsection \<open>Defaults\<close>

text \<open>
  Claim C2, as the specification states it: every zero page or offset field becomes 1 before
  encoding. It does not hold: \<open>actorRequestToParams\<close> has no default for \<open>Offset\<close>. The
  zero actor request keeps offset 0 and sends \<open>offset=0\<close>.
\<close>

theorem actor_offset_default_counterexample:
  "Offset (snd (actorRequestToParams zero_ActorRequest)) = 0
   \<and> values_at (fst (actorRequestToParams zero_ActorRequest)) ''offset'' = [''0'']
   \<and> values_at (fst (actorRequestToParams zero_ActorRequest)) ''offset'' \<noteq> [''1'']"
  by (simp add: actor_values_at actorRequestToParams_request zero_ActorRequest_def Itoa_small
        values_at_simps)

text \<open>
  Claim C2, amended: the defaults depend on the kind of request. An actor request leaves
  the encoder with limit 10 when its limit was zero and with the basic-fields sentinel as
  its only field when its field list was empty, and with its offset as it was; an indicator
  request leaves it with page 1 when its page was zero and with 10 per page when that was
  zero; an IOC search request is not changed, and a zero limit or offset is left out of its
  parameters. The parameters hold the values of the request as the encoder leaves it.
\<close>

theorem defaults_before_encoding:
  "snd (actorRequestToParams areq) =
     areq\<lparr>Limit := (if Limit areq = 0 then 10 else Limit areq),
          Fields := (if Fields areq = [] then [BasicFields] else Fields areq)\<rparr>
   \<and> values_at (fst (actorRequestToParams areq)) ''limit'' =
       [Itoa (Limit (snd (actorRequestToParams areq)))]
   \<and> values_at (fst (actorRequestToParams areq)) ''fields'' =
       filter (\<lambda>v. v \<noteq> []) (Fields (snd (actorRequestToParams areq)))
   \<and> values_at (fst (actorRequestToParams areq)) ''offset'' = [Itoa (Offset areq)]
   \<and> snd (indicatorRequestToParams ireq) =
       ireq\<lparr>Page := (if Page ireq = 0 then 1 else Page ireq),
            PerPage := (if PerPage ireq = 0 then 10 else PerPage ireq)\<rparr>
   \<and> values_at (fst (indicatorRequestToParams ireq)) ''page'' =
       (if Filter ireq = ''page'' then [Value ireq] else []) @
       [Itoa (Page (snd (indicatorRequestToParams ireq)))]
   \<and> values_at (fst (indicatorRequestToParams ireq)) ''perPage'' =
       (if Filter ireq = ''perPage'' then [Value ireq] else []) @
       [Itoa (PerPage (snd (indicatorRequestToParams ireq)))]
   \<and> snd (searchRequestToParams rfc3339 sreq) = sreq
   \<and> values_at (fst (searchRequestToParams rfc3339 sreq)) ''limit'' =
       (if Limit sreq = 0 then [] else [Itoa (Limit sreq)])
   \<and> values_at (fst (searchRequestToParams rfc3339 sreq)) ''offset'' =
       (if Offset sreq = 0 then [] else [Itoa (Offset sreq)])"
proof (intro conjI)
  show "snd (actorRequestToParams areq) =
     areq\<lparr>Limit := (if Limit areq = 0 then 10 else Limit areq),
          Fields := (if Fields areq = [] then [BasicFields] else Fields areq)\<rparr>"
    by (rule actorRequestToParams_request)
  show "values_at (fst (actorRequestToParams areq)) ''limit'' =
       [Itoa (Limit (snd (actorRequestToParams areq)))]"
    by (simp add: actor_values_at actorRequestToParams_request values_at_simps)
  show "values_at (fst (actorRequestToParams areq)) ''fields'' =
       filter (\<lambda>v. v \<noteq> []) (Fields (snd (actorRequestToParams areq)))"
    by (simp add: actor_values_at actorRequestToParams_request values_at_simps BasicFields_def)
  show "values_at (fst (actorRequestToParams areq)) ''offset'' = [Itoa (Offset areq)]"
    by (simp add: actor_values_at values_at_simps)
  show "snd (indicatorRequestToParams ireq) =
       ireq\<lparr>Page := (if Page ireq = 0 then 1 else Page ireq),
            PerPage := (if PerPage ireq = 0 then 10 else PerPage ireq)\<rparr>"
    by (rule indicatorRequestToParams_request)
  show "values_at (fst (indicatorRequestToParams ireq)) ''page'' =
       (if Filter ireq = ''page'' then [Value ireq] else []) @
       [Itoa (Page (snd (indicatorRequestToParams ireq)))]"
    by (simp add: indicator_values_at indicatorRequestToParams_request split: option.split)
  show "values_at (fst (indicatorRequestToParams ireq)) ''perPage'' =
       (if Filter ireq = ''perPage'' then [Value ireq] else []) @
       [Itoa (PerPage (snd (indicatorRequestToParams ireq)))]"
    by (simp add: indicator_values_at indicatorRequestToParams_request split: option.split)
  show "snd (searchRequestToParams rfc3339 sreq) = sreq"
    by (rule searchRequestToParams_request)
  show "values_at (fst (searchRequestToParams rfc3339 sreq)) ''limit'' =
       (if Limit sreq = 0 then [] else [Itoa (Limit sreq)])"
    by (simp add: search_values_at split: option.split)
  show "values_at (fst (searchRequestToParams rfc3339 sreq)) ''offset'' =
       (if Offset sreq = 0 then [] else [Itoa (Offset sreq)])"
    by (simp add: search_values_at split: option.split)
qed

theorem defaults_before_encoding_witness:
  "Limit (snd (actorRequestToParams zero_ActorRequest)) = 10
   \<and> Fields (snd (actorRequestToParams zero_ActorRequest)) = [''__basic__'']
   \<and> values_at (fst (actorRequestToParams zero_ActorRequest)) ''limit'' = [''10'']
   \<and> values_at (fst (actorRequestToParams zero_ActorRequest)) ''fields'' = [''__basic__'']
   \<and> Page (snd (indicatorRequestToParams zero_IndicatorRequest)) = 1
   \<and> PerPage (snd (indicatorRequestToParams zero_IndicatorRequest)) = 10
   \<and> values_at (fst (indicatorRequestToParams zero_IndicatorRequest)) ''page'' = [''1'']
   \<and> values_at (fst (indicatorRequestToParams zero_IndicatorRequest)) ''perPage'' = [''10'']
   \<and> values_at (fst (searchRequestToParams (\<lambda>t. []) zero_SearchIOCsRequest)) ''limit'' = []"
  using defaults_before_encoding
          [of zero_ActorRequest zero_IndicatorRequest "\<lambda>t. []" zero_SearchIOCsRequest]
  by (simp add: zero_ActorRequest_def zero_IndicatorRequest_def zero_SearchIOCsRequest_def
        BasicFields_def Itoa_small)

subsection \<open>Time fields\<close>

text \<open>
  Claim C3: a time field gives a parameter if and only if it is neither nil nor the zero
  time. \<open>addTime\<close> of the intelligence family does so (lemma \<open>values_at_addTime\<close>);
  \<open>addRFCTime\<close> of the host family only tests for nil. A pointer to the zero time in
  \<open>FromExpirationTimestamp\<close> is sent as a \<open>from.expiration_timestamp\<close> parameter, where the
  same zero time in a field of an actor request is left out.
\<close>

theorem addRFCTime_includes_zero_time:
  "IsZero zero_Time
   \<and> values_at (fst (searchRequestToParams rfc3339
        (zero_SearchIOCsRequest\<lparr>FromExpirationTimestamp := Some zero_Time\<rparr>)))
        ''from.expiration_timestamp'' = [rfc3339 zero_Time]
   \<and> values_at (fst (actorRequestToParams
        (zero_ActorRequest\<lparr>MinLastModifiedDate := Some zero_Time\<rparr>)))
        ''min_last_modified_date'' = []"
  by (simp add: search_values_at actor_values_at values_at_simps zero_SearchIOCsRequest_def
        zero_ActorRequest_def IsZero_def zero_Time_def)

subsection \<open>Sort fields\<close>

text \<open>
  Claim C4, as the specification states it: every sort specification is encoded as the one
  string \<open>name.asc\<close> or \<open>name.desc\<close> under the sort key. It does not hold for an
  indicator request: \<open>indicatorRequestToParams\<close> sends the name alone under \<open>sort\<close> and
  the direction under \<open>order\<close>.
\<close>

theorem indicator_sort_counterexample:
  "values_at (fst (indicatorRequestToParams
        (zero_IndicatorRequest\<lparr>Parameter := ''domain'', Filter := ''match'',
           Value := ''example.com'',
           IndicatorRequest.Sort := Some \<lparr>SortField.Name = ''x'', Ascending = False\<rparr>\<rparr>)))
        ''sort'' = [''x'']
   \<and> values_at (fst (indicatorRequestToParams
        (zero_IndicatorRequest\<lparr>Parameter := ''domain'', Filter := ''match'',
           Value := ''example.com'',
           IndicatorRequest.Sort := Some \<lparr>SortField.Name = ''x'', Ascending = False\<rparr>\<rparr>)))
        ''sort'' \<noteq> [''x.desc'']
   \<and> values_at (fst (indicatorRequestToParams
        (zero_IndicatorRequest\<lparr>Parameter := ''domain'', Filter := ''match'',
           Value := ''example.com'',
           IndicatorRequest.Sort := Some \<lparr>SortField.Name = ''x'', Ascending = False\<rparr>\<rparr>)))
        ''order'' = [''desc'']"
  by (simp add: indicator_values_at zero_IndicatorRequest_def)

text \<open>
  Claim C4, amended: \<open>addSortFields\<close>, which encodes the sort fields of an actor request
  and the sort field of an IOC search request, appends for each sort field the one string
  \<open>name.asc\<close> or \<open>name.desc\<close> under the key it is given, in the order of the list. An
  indicator request has at most one sort field and sends it as two parameters: the name
  under \<open>sort\<close> and \<open>asc\<close> or \<open>desc\<close> under \<open>order\<close>.
\<close>

theorem sort_fields_encoding:
  "values_at (addSortFields name sortFields params) k =
     (if k = name
      then values_at params k @
           map (\<lambda>sf. SortField.Name sf @ ''.'' @ (if Ascending sf then ''asc'' else ''desc''))
             sortFields
      else values_at params k)
   \<and> values_at (fst (actorRequestToParams areq)) ''sort'' =
       map (\<lambda>sf. SortField.Name sf @ ''.'' @ (if Ascending sf then ''asc'' else ''desc''))
         (SortFields areq)
   \<and> values_at (fst (searchRequestToParams rfc3339 sreq)) ''sort'' =
       (case SearchIOCsRequest.Sort sreq of
          None \<Rightarrow> []
        | Some sf \<Rightarrow> [SortField.Name sf @ ''.'' @ (if Ascending sf then ''asc'' else ''desc'')])
   \<and> values_at (fst (indicatorRequestToParams ireq)) ''sort'' =
       (if Filter ireq = ''sort'' then [Value ireq] else []) @
       (case IndicatorRequest.Sort ireq of None \<Rightarrow> [] | Some sf \<Rightarrow> [SortField.Name sf])
   \<and> values_at (fst (indicatorRequestToParams ireq)) ''order'' =
       (if Filter ireq = ''order'' then [Value ireq] else []) @
       (case IndicatorRequest.Sort ireq of
          None \<Rightarrow> []
        | Some sf \<Rightarrow> [if Ascending sf then ''asc'' else ''desc''])"
proof (intro conjI)
  show "values_at (addSortFields name sortFields params) k =
     (if k = name
      then values_at params k @
           map (\<lambda>sf. SortField.Name sf @ ''.'' @ (if Ascending sf then ''asc'' else ''desc''))
             sortFields
      else values_at params k)"
    by (rule values_at_addSortFields)
  show "values_at (fst (actorRequestToParams areq)) ''sort'' =
       map (\<lambda>sf. SortField.Name sf @ ''.'' @ (if Ascending sf then ''asc'' else ''desc''))
         (SortFields areq)"
    by (simp add: actor_values_at values_at_simps)
  show "values_at (fst (searchRequestToParams rfc3339 sreq)) ''sort'' =
       (case SearchIOCsRequest.Sort sreq of
          None \<Rightarrow> []
        | Some sf \<Rightarrow> [SortField.Name sf @ ''.'' @ (if Ascending sf then ''asc'' else ''desc'')])"
    by (simp add: search_values_at split: option.split)
  show "values_at (fst (indicatorRequestToParams ireq)) ''sort'' =
       (if Filter ireq = ''sort'' then [Value ireq] else []) @
       (case IndicatorRequest.Sort ireq of None \<Rightarrow> [] | Some sf \<Rightarrow> [SortField.Name sf])"
    by (simp add: indicator_values_at split: option.split)
  show "values_at (fst (indicatorRequestToParams ireq)) ''order'' =
       (if Filter ireq = ''order'' then [Value ireq] else []) @
       (case IndicatorRequest.Sort ireq of
          None \<Rightarrow> []
        | Some sf \<Rightarrow> [if Ascending sf then ''asc'' else ''desc''])"
    by (simp add: indicator_values_at split: option.split)
qed

text \<open>\<open>{x, false}\<close> gives \<open>x.desc\<close>, \<open>{x, true}\<close> gives \<open>x.asc\<close>, in the order given.\<close>

theorem sort_fields_encoding_witness:
  "values_at (addSortFields ''sort'' [\<lparr>SortField.Name = ''x'', Ascending = False\<rparr>,
                                      \<lparr>SortField.Name = ''x'', Ascending = True\<rparr>] []) ''sort'' =
     [''x.desc'', ''x.asc'']"
  using sort_fields_encoding
          [of "''sort''" "[\<lparr>SortField.Name = ''x'', Ascending = False\<rparr>,
                          \<lparr>SortField.Name = ''x'', Ascending = True\<rparr>]" "[]" "''sort''"]
  by (simp add: values_at_def)

section \<open>Properties of the timestamp normalizer\<close>

lemma int64_in_range:
  "- (2 ^ 63) \<le> x \<Longrightarrow> x < 2 ^ 63 \<Longrightarrow>
     int64 oor x = (if 0 \<le> x then \<lfloor>x\<rfloor> else \<lceil>x\<rceil>)"
  by (simp add: int64_def Let_def le_floor_iff floor_less_iff le_ceiling_iff ceiling_less_iff)

lemma IndicatorResponse_convertDates_fields:
  "LastUpdated (IndicatorResponse_convertDates oor ir) =
     time_Unix (int64 oor (LastUpdatedEpoch ir))"
  "PublishedDate (IndicatorResponse_convertDates oor ir) =
     time_Unix (int64 oor (PublishedDateEpoch ir))"
  "Relations (IndicatorResponse_convertDates oor ir) =
     map (Relation_convertDates oor) (Relations ir)"
  "Labels (IndicatorResponse_convertDates oor ir) = map (Label_convertDates oor) (Labels ir)"
  by (simp_all add: IndicatorResponse_convertDates_def Let_def)

lemma Relation_convertDates_fields:
  "Relation.CreatedDate (Relation_convertDates oor rel) =
     time_Unix (int64 oor (CreatedDateEpoch rel))"
  "LastValidDate (Relation_convertDates oor rel) =
     time_Unix (int64 oor (LastValidDateEpoch rel))"
  by (simp_all add: Relation_convertDates_def Let_def)

lemma Label_convertDates_fields:
  "CreatedOn (Label_convertDates oor lbl) = time_Unix (int64 oor (CreatedOnEpoch lbl))"
  "LastValidOn (Label_convertDates oor lbl) = time_Unix (int64 oor (LastValidOnEpoch lbl))"
  by (simp_all add: Label_convertDates_def Let_def)

lemma Resource_convertDates_fields:
  "Resource.CreatedDate (Resource_convertDates oor res) =
     time_Unix (int64 oor (CreatedEpoch res))"
  "FirstActivityDate (Resource_convertDates oor res) =
     time_Unix (int64 oor (FirstActivityEpoch res))"
  "LastActivityDate (Resource_convertDates oor res) =
     time_Unix (int64 oor (LastActivityEpoch res))"
  by (simp_all add: Resource_convertDates_def Let_def)

text \<open>
  \<open>Resource.convertDates\<close> assigns \<open>LastActivityDate\<close> twice and \<open>LastModifiedDate\<close> never:
  the modification date of an actor stays what the decoder left.
\<close>

lemma Resource_convertDates_LastModifiedDate:
  "LastModifiedDate (Resource_convertDates oor res) = LastModifiedDate res"
  by (simp add: Resource_convertDates_def Let_def)

text \<open>
  Claim C5, as the specification states it: a fractional epoch is floored, for inputs of
  every sign. It does not hold for a negative fraction: the epoch \<open>-1.5\<close> becomes second
  \<open>-1\<close>, and its floor is \<open>-2\<close>.
\<close>

theorem convertDates_negative_fraction_counterexample:
  "LastUpdated (IndicatorResponse_convertDates oor_amd64
        (zero_IndicatorResponse\<lparr>LastUpdatedEpoch := - (3 / 2)\<rparr>)) = time_Unix (- 1)
   \<and> time_Unix \<lfloor>- (3 / 2) :: real\<rfloor> = time_Unix (- 2)
   \<and> time_Unix (- 1) \<noteq> time_Unix (- 2)"
  by (simp add: IndicatorResponse_convertDates_fields zero_IndicatorResponse_def
        int64_def time_Unix_def)

text \<open>
  Claim C5, amended: an epoch whose value lies in the range of \<open>int64\<close> is truncated
  towards zero (floored when it is not negative, rounded up to the next whole second when
  it is), and every derived timestamp that the normalizer assigns is that whole number of
  seconds since 1970-01-01T00:00:00Z, with no nanoseconds: the two dates of an indicator
  response, of each of its relations and of each of its labels, and the creation, first
  activity and last activity dates of an actor.
\<close>

theorem convertDates_truncates_toward_zero:
  "(- (2 ^ 63) \<le> x \<and> x < 2 ^ 63 \<longrightarrow>
      int64 oor x = (if 0 \<le> x then \<lfloor>x\<rfloor> else \<lceil>x\<rceil>))
   \<and> LastUpdated (IndicatorResponse_convertDates oor ir) =
       time_Unix (int64 oor (LastUpdatedEpoch ir))
   \<and> PublishedDate (IndicatorResponse_convertDates oor ir) =
       time_Unix (int64 oor (PublishedDateEpoch ir))
   \<and> Relations (IndicatorResponse_convertDates oor ir) =
       map (Relation_convertDates oor) (Relations ir)
   \<and> Labels (IndicatorResponse_convertDates oor ir) = map (Label_convertDates oor) (Labels ir)
   \<and> Relation.CreatedDate (Relation_convertDates oor rel) =
       time_Unix (int64 oor (CreatedDateEpoch rel))
   \<and> LastValidDate (Relation_convertDates oor rel) =
       time_Unix (int64 oor (LastValidDateEpoch rel))
   \<and> CreatedOn (Label_convertDates oor lbl) = time_Unix (int64 oor (CreatedOnEpoch lbl))
   \<and> LastValidOn (Label_convertDates oor lbl) = time_Unix (int64 oor (LastValidOnEpoch lbl))
   \<and> Resource.CreatedDate (Resource_convertDates oor res) =
       time_Unix (int64 oor (CreatedEpoch res))
   \<and> FirstActivityDate (Resource_convertDates oor res) =
       time_Unix (int64 oor (FirstActivityEpoch res))
   \<and> LastActivityDate (Resource_convertDates oor res) =
       time_Unix (int64 oor (LastActivityEpoch res))
   \<and> Unix (time_Unix s) = s \<and> nsec (time_Unix s) = 0"
  using int64_in_range [of x oor]
  by (simp only: IndicatorResponse_convertDates_fields Relation_convertDates_fields
        Label_convertDates_fields Resource_convertDates_fields)
     (simp add: Unix_def time_Unix_def)

theorem convertDates_truncates_toward_zero_witness:
  "int64 oor_amd64 (- (3 / 2)) = - 1
   \<and> LastUpdated (IndicatorResponse_convertDates oor_amd64
         (zero_IndicatorResponse\<lparr>LastUpdatedEpoch := - (3 / 2)\<rparr>)) = time_Unix (- 1)"
proof -
  have r: "- (2 ^ 63) \<le> (- (3 / 2) :: real) \<and> (- (3 / 2) :: real) < 2 ^ 63"
    by simp
  have e: "LastUpdatedEpoch (zero_IndicatorResponse\<lparr>LastUpdatedEpoch := - (3 / 2)\<rparr>) = - (3 / 2)"
    by simp
  have i: "int64 oor_amd64 (- (3 / 2)) = - 1"
    using convertDates_truncates_toward_zero [of "- (3 / 2)" oor_amd64] r by simp
  show ?thesis
    using convertDates_truncates_toward_zero
            [of "- (3 / 2)" oor_amd64 "zero_IndicatorResponse\<lparr>LastUpdatedEpoch := - (3 / 2)\<rparr>"] r
    by (simp only: e i)
qed

section \<open>Properties of construction\<close>

lemma run_options_append:
  "run_options (xs @ ys) cl w =
     (case run_options xs cl w of
        (Inl err, w') \<Rightarrow> (Inl err, w')
      | (Inr cl', w') \<Rightarrow> run_options ys cl' w')"
  by (induction xs arbitrary: cl w) (auto split: prod.splits option.splits sum.splits)

lemma HasSuffix_DefaultURL: "HasSuffix DefaultURL ''/''" "HasSuffix DefaultURLHost ''/''"
  by (simp_all add: HasSuffix_def DefaultURL_def DefaultURLHost_def)

lemma SetURL_ok:
  "url_Parse std (if u = [] then DefaultURL else u) = Inr scheme \<Longrightarrow>
   scheme = ''http'' \<or> scheme = ''https'' \<Longrightarrow>
   SetURL std u cl w =
     (None,
      cl\<lparr>url := (if HasSuffix (if u = [] then DefaultURL else u) ''/''
                  then (if u = [] then DefaultURL else u)
                  else (if u = [] then DefaultURL else u) @ ''/'')\<rparr>, w)"
  by (auto simp: SetURL_def Let_def)

lemma SetURL_empty:
  "url_Parse std DefaultURL = Inr ''https'' \<Longrightarrow>
   SetURL std [] cl w = (None, cl\<lparr>url := DefaultURL\<rparr>, w)"
  using SetURL_ok [of std "[]" "''https''" cl w] by (simp add: HasSuffix_DefaultURL)

lemma newClient_result:
  "run_options options
     \<lparr>id' = [], key = [], url = [], errorlog = None, tracelog = None,
      c' = DefaultClient std\<rparr> w = (Inr cl, w') \<Longrightarrow>
   fst (newClient std options w) =
     (if id' cl = [] \<or> key cl = [] then Inl ErrMissingCredentials else Inr cl)"
  by (simp add: newClient_def Let_def)

lemma New_result:
  "run_options options
     \<lparr>id' = [], key = [], url = DefaultURL, errorlog = None, tracelog = None,
      c' = DefaultClient std\<rparr> w = (Inr cl, w') \<Longrightarrow>
   fst (New std options w) =
     (if id' cl = [] \<or> key cl = [] then Inl ErrMissingCredentials else Inr cl)"
  by (simp add: New_def Let_def)

text \<open>
  Claim C8: when every option of the list has succeeded, the constructors \<open>newClient\<close>,
  \<open>New\<close>, \<open>NewIntel\<close> and \<open>NewHost\<close> answer the missing-credentials error whenever the
  identifier or the secret of the client that the options leave is empty. The options are
  any functions; for \<open>NewIntel\<close> and \<open>NewHost\<close> the list that runs is the caller's list
  behind the \<open>SetURL\<close> of the family's default.
\<close>

theorem construction_requires_credentials:
  "(run_options options
      \<lparr>id' = [], key = [], url = [], errorlog = None, tracelog = None,
       c' = DefaultClient std\<rparr> w = (Inr cl, w') \<and> (id' cl = [] \<or> key cl = [])
    \<longrightarrow> fst (newClient std options w) = Inl ErrMissingCredentials)
   \<and> (run_options options
        \<lparr>id' = [], key = [], url = DefaultURL, errorlog = None, tracelog = None,
         c' = DefaultClient std\<rparr> w = (Inr cl, w') \<and> (id' cl = [] \<or> key cl = [])
      \<longrightarrow> fst (New std options w) = Inl ErrMissingCredentials)
   \<and> (run_options (SetURL std DefaultURL # options)
        \<lparr>id' = [], key = [], url = [], errorlog = None, tracelog = None,
         c' = DefaultClient std\<rparr> w = (Inr cl, w') \<and> (id' cl = [] \<or> key cl = [])
      \<longrightarrow> fst (NewIntel std options w) = Inl ErrMissingCredentials)
   \<and> (run_options (SetURL std DefaultURLHost # options)
        \<lparr>id' = [], key = [], url = [], errorlog = None, tracelog = None,
         c' = DefaultClient std\<rparr> w = (Inr cl, w') \<and> (id' cl = [] \<or> key cl = [])
      \<longrightarrow> fst (NewHost std options w) = Inl ErrMissingCredentials)"
  using newClient_result [of options std w cl w'] New_result [of options std w cl w']
        newClient_result [of "SetURL std DefaultURL # options" std w cl w']
        newClient_result [of "SetURL std DefaultURLHost # options" std w cl w']
  unfolding NewIntel_def NewHost_def by presburger

text \<open>A host client given a log and a URL, and no credentials.\<close>

theorem construction_requires_credentials_witness:
  "fst (newClient stub_std
          [SetErrorLog (Some (Logger ''err'')), SetURL stub_std ''http://localhost:8080'']
          zero_world) = Inl ErrMissingCredentials
   \<and> fst (New stub_std
          [SetErrorLog (Some (Logger ''err'')), SetURL stub_std ''http://localhost:8080'']
          zero_world) = Inl ErrMissingCredentials
   \<and> fst (NewIntel stub_std
          [SetErrorLog (Some (Logger ''err'')), SetURL stub_std ''http://localhost:8080'']
          zero_world) = Inl ErrMissingCredentials
   \<and> fst (NewHost stub_std
          [SetErrorLog (Some (Logger ''err'')), SetURL stub_std ''http://localhost:8080'']
          zero_world) = Inl ErrMissingCredentials"
  using construction_requires_credentials [where std = stub_std and w = zero_world and w' = zero_world
              and options = "[SetErrorLog (Some (Logger ''err'')),
                              SetURL stub_std ''http://localhost:8080'']"
              and cl = "\<lparr>id' = [], key = [], url = ''http://localhost:8080/'',
                         errorlog = Some (Logger ''err''), tracelog = None,
                         c' = DefaultClient stub_std\<rparr>"]
  by (simp add: SetErrorLog_def SetURL_def stub_std_def Let_def HasSuffix_def
        DefaultURL_def DefaultURLHost_def zero_world_def)

text \<open>
  Claim C10: \<open>SetURL("")\<close> sets the base URL of any client to the default of the
  intelligence family (the library parses that constant as an \<open>https\<close> URL); \<open>NewIntel\<close>
  and \<open>NewHost\<close> install their default only by putting a \<open>SetURL\<close> option in front of the
  caller's options, on a client whose URL is empty; a \<open>SetURL\<close> option that comes last and
  succeeds decides the URL, whatever the options before it did; so a host client built with
  a final \<open>SetURL("")\<close> has the URL of the intelligence family.
\<close>

theorem SetURL_empty_is_intel_default:
  "(url_Parse std DefaultURL = Inr ''https'' \<longrightarrow>
      SetURL std [] cl w = (None, cl\<lparr>url := DefaultURL\<rparr>, w))
   \<and> NewIntel std options w = newClient std (SetURL std DefaultURL # options) w
   \<and> NewHost std options w = newClient std (SetURL std DefaultURLHost # options) w
   \<and> (run_options options cl w = (Inr cl1, w1) \<and>
       url_Parse std (if u = [] then DefaultURL else u) = Inr scheme \<and>
       (scheme = ''http'' \<or> scheme = ''https'') \<longrightarrow>
         run_options (options @ [SetURL std u]) cl w =
           (Inr (cl1\<lparr>url := (if HasSuffix (if u = [] then DefaultURL else u) ''/''
                              then (if u = [] then DefaultURL else u)
                              else (if u = [] then DefaultURL else u) @ ''/'')\<rparr>), w1))
   \<and> (url_Parse std DefaultURL = Inr ''https'' \<and>
       run_options (SetURL std DefaultURLHost # options)
         \<lparr>id' = [], key = [], url = [], errorlog = None, tracelog = None,
          c' = DefaultClient std\<rparr> w = (Inr hcl, w') \<and>
       id' hcl \<noteq> [] \<and> key hcl \<noteq> [] \<longrightarrow>
         fst (NewHost std (options @ [SetURL std []]) w) = Inr (hcl\<lparr>url := DefaultURL\<rparr>))"
proof (intro conjI impI)
  assume "url_Parse std DefaultURL = Inr ''https''"
  then show "SetURL std [] cl w = (None, cl\<lparr>url := DefaultURL\<rparr>, w)"
    by (rule SetURL_empty)
next
  show "NewIntel std options w = newClient std (SetURL std DefaultURL # options) w"
    by (simp add: NewIntel_def)
next
  show "NewHost std options w = newClient std (SetURL std DefaultURLHost # options) w"
    by (simp add: NewHost_def)
next
  assume a: "run_options options cl w = (Inr cl1, w1) \<and>
       url_Parse std (if u = [] then DefaultURL else u) = Inr scheme \<and>
       (scheme = ''http'' \<or> scheme = ''https'')"
  then have "SetURL std u cl1 w1 =
     (None,
      cl1\<lparr>url := (if HasSuffix (if u = [] then DefaultURL else u) ''/''
                  then (if u = [] then DefaultURL else u)
                  else (if u = [] then DefaultURL else u) @ ''/'')\<rparr>, w1)"
    using SetURL_ok [of std u scheme cl1 w1] by blast
  then show "run_options (options @ [SetURL std u]) cl w =
           (Inr (cl1\<lparr>url := (if HasSuffix (if u = [] then DefaultURL else u) ''/''
                              then (if u = [] then DefaultURL else u)
                              else (if u = [] then DefaultURL else u) @ ''/'')\<rparr>), w1)"
    using a by (simp add: run_options_append)
next
  assume a: "url_Parse std DefaultURL = Inr ''https'' \<and>
       run_options (SetURL std DefaultURLHost # options)
         \<lparr>id' = [], key = [], url = [], errorlog = None, tracelog = None,
          c' = DefaultClient std\<rparr> w = (Inr hcl, w') \<and>
       id' hcl \<noteq> [] \<and> key hcl \<noteq> []"
  let ?c0 = "\<lparr>id' = [], key = [], url = [], errorlog = None, tracelog = None,
          c' = DefaultClient std\<rparr>"
  have s: "SetURL std [] hcl w' = (None, hcl\<lparr>url := DefaultURL\<rparr>, w')"
    using a by (simp add: SetURL_empty)
  have "run_options ((SetURL std DefaultURLHost # options) @ [SetURL std []]) ?c0 w =
          (Inr (hcl\<lparr>url := DefaultURL\<rparr>), w')"
    using a s by (simp only: run_options_append) simp
  then have "run_options (SetURL std DefaultURLHost # options @ [SetURL std []]) ?c0 w =
          (Inr (hcl\<lparr>url := DefaultURL\<rparr>), w')"
    by simp
  then show "fst (NewHost std (options @ [SetURL std []]) w) = Inr (hcl\<lparr>url := DefaultURL\<rparr>)"
    using a newClient_result [of "SetURL std DefaultURLHost # options @ [SetURL std []]" std w
                                 "hcl\<lparr>url := DefaultURL\<rparr>" w']
    by (simp add: NewHost_def)
qed

theorem SetURL_empty_is_intel_default_witness:
  "SetURL stub_std [] (answering not_found) zero_world =
     (None, (answering not_found)\<lparr>url := ''https://intelapi.crowdstrike.com/''\<rparr>, zero_world)
   \<and> fst (NewHost stub_std [SetCredentials ''id'' ''secret'', SetURL stub_std []] zero_world) =
       Inr \<lparr>id' = ''id'', key = ''secret'', url = ''https://intelapi.crowdstrike.com/'',
            errorlog = None, tracelog = None, c' = DefaultClient stub_std\<rparr>"
  using SetURL_empty_is_intel_default [where std = stub_std and cl = "answering not_found" and w = zero_world
               and options = "[SetCredentials ''id'' ''secret'']" and w' = zero_world
               and hcl = "\<lparr>id' = ''id'', key = ''secret'',
                           url = ''https://falconapi.crowdstrike.com/'',
                           errorlog = None, tracelog = None, c' = DefaultClient stub_std\<rparr>"]
  by (simp add: SetCredentials_def SetURL_def stub_std_def Let_def HasSuffix_def
        DefaultURL_def DefaultURLHost_def zero_world_def answering_def)

section \<open>Properties of sending\<close>

subsection \<open>The logs change nothing else\<close>

lemma Printf_fields [simp]:
  "sent (Printf lg line w) = sent w" "closed (Printf lg line w) = closed w"
  "decoded (Printf lg line w) = decoded w" "drained (Printf lg line w) = drained w"
  by (simp_all add: Printf_def)

lemma errorf_fields [simp]:
  "sent (errorf cl line w) = sent w" "closed (errorf cl line w) = closed w"
  "decoded (errorf cl line w) = decoded w" "drained (errorf cl line w) = drained w"
  by (simp_all add: errorf_def split: option.split)

lemma tracef_fields [simp]:
  "sent (tracef cl line w) = sent w" "closed (tracef cl line w) = closed w"
  "decoded (tracef cl line w) = decoded w" "drained (tracef cl line w) = drained w"
  by (simp_all add: tracef_def split: option.split)

lemma dumpRequest_fields [simp]:
  "sent (dumpRequest std cl req w) = sent w" "closed (dumpRequest std cl req w) = closed w"
  "decoded (dumpRequest std cl req w) = decoded w"
  "drained (dumpRequest std cl req w) = drained w"
  by (simp_all add: dumpRequest_def split: option.split sum.split)

subsection \<open>The dump of a response\<close>

lemma DumpResponse_StatusCode [simp]:
  "StatusCode (fst (snd (DumpResponse std resp w))) = StatusCode resp"
  by (simp add: DumpResponse_def Let_def split: option.split)

lemma DumpResponse_fields [simp]:
  "sent (snd (snd (DumpResponse std resp w))) = sent w"
  "decoded (snd (snd (DumpResponse std resp w))) = decoded w"
  by (simp_all add: DumpResponse_def Let_def split: option.split)

lemma DumpResponse_closed:
  "closed (snd (snd (DumpResponse std resp w))) =
     closed w + (case Body resp of
                   None \<Rightarrow> 0
                 | Some b \<Rightarrow> if kind b = FromClient \<and> read_err b = None then 1 else 0)"
  by (simp add: DumpResponse_def Let_def split: option.split)

lemma DumpResponse_drained:
  "drained (snd (snd (DumpResponse std resp w))) =
     drained w + (case Body resp of None \<Rightarrow> 0 | Some b \<Rightarrow> if kind b = FromClient then 1 else 0)"
  by (simp add: DumpResponse_def Let_def split: option.split)

lemma DumpResponse_readable:
  "Body resp = Some b \<Longrightarrow> read_err b = None \<Longrightarrow>
   \<exists>b'. Body (fst (snd (DumpResponse std resp w))) = Some b' \<and> unread b' = unread b \<and>
        read_err b' = None"
  by (simp add: DumpResponse_def Let_def)

lemma dumpResponse_fields [simp]:
  "sent (snd (dumpResponse std cl resp w)) = sent w"
  "decoded (snd (dumpResponse std cl resp w)) = decoded w"
proof -
  obtain out r w' where d: "DumpResponse std resp w = (out, r, w')"
    by (cases "DumpResponse std resp w")
  have w': "sent w' = sent w" "decoded w' = decoded w"
    using DumpResponse_fields [of std resp w] d by simp_all
  show "sent (snd (dumpResponse std cl resp w)) = sent w"
    by (cases "tracelog cl"; cases out) (simp_all add: dumpResponse_def d w')
  show "decoded (snd (dumpResponse std cl resp w)) = decoded w"
    by (cases "tracelog cl"; cases out) (simp_all add: dumpResponse_def d w')
qed

lemma dumpResponse_closed: "closed w \<le> closed (snd (dumpResponse std cl resp w))"
proof -
  obtain out r w' where d: "DumpResponse std resp w = (out, r, w')"
    by (cases "DumpResponse std resp w")
  have w': "closed w \<le> closed w'"
    using DumpResponse_closed [of std resp w] d by simp
  show ?thesis
    by (cases "tracelog cl"; cases out) (simp_all add: dumpResponse_def d w')
qed

lemma dumpResponse_readable:
  assumes "Body resp = Some b" "read_err b = None"
  shows "\<exists>b'. Body (fst (dumpResponse std cl resp w)) = Some b' \<and> unread b' = unread b \<and>
              read_err b' = None"
proof -
  obtain out r w' where d: "DumpResponse std resp w = (out, r, w')"
    by (cases "DumpResponse std resp w")
  have r: "\<exists>b'. Body r = Some b' \<and> unread b' = unread b \<and> read_err b' = None"
    using DumpResponse_readable [OF assms, of std w] d by simp
  show ?thesis
    using assms r by (cases "tracelog cl"; cases out) (simp_all add: dumpResponse_def d)
qed

subsection \<open>The classification of the status\<close>

lemma handleError_success:
  "200 \<le> StatusCode resp \<Longrightarrow> StatusCode resp < 300 \<Longrightarrow>
   handleError std cl resp w = (None, resp, w)"
  by (simp add: handleError_def)

lemma handleError_failure:
  assumes "StatusCode resp < 200 \<or> 300 \<le> StatusCode resp"
  shows "fst (handleError std cl resp w) =
           Some (Error ''http_error''
                  (''Unexpected status code: '' @ Itoa (StatusCode resp) @ '' ('' @
                   StatusText std (StatusCode resp) @ '')''))"
    and "sent (snd (snd (handleError std cl resp w))) = sent w"
    and "decoded (snd (snd (handleError std cl resp w))) = decoded w"
    and "closed (snd (snd (handleError std cl resp w))) =
           closed w + (case Body resp of
                         None \<Rightarrow> 0
                       | Some b \<Rightarrow> if errorlog cl \<noteq> None \<and> kind b = FromClient \<and>
                                     read_err b = None then 1 else 0)"
    and "drained (snd (snd (handleError std cl resp w))) =
           drained w + (case Body resp of
                          None \<Rightarrow> 0
                        | Some b \<Rightarrow> if errorlog cl \<noteq> None \<and> kind b = FromClient then 1 else 0)"
proof -
  obtain out resp' w' where d: "DumpResponse std resp w = (out, resp', w')"
    by (cases "DumpResponse std resp w")
  have sc: "StatusCode resp' = StatusCode resp"
    using DumpResponse_StatusCode [of std resp w] d by simp
  have w': "sent w' = sent w" "decoded w' = decoded w"
    using DumpResponse_fields [of std resp w] d by simp_all
  have c: "closed w' =
     closed w + (case Body resp of
                   None \<Rightarrow> 0
                 | Some b \<Rightarrow> if kind b = FromClient \<and> read_err b = None then 1 else 0)"
    using DumpResponse_closed [of std resp w] d by simp
  have dr: "drained w' =
     drained w + (case Body resp of None \<Rightarrow> 0 | Some b \<Rightarrow> if kind b = FromClient then 1 else 0)"
    using DumpResponse_drained [of std resp w] d by simp
  show "fst (handleError std cl resp w) =
           Some (Error ''http_error''
                  (''Unexpected status code: '' @ Itoa (StatusCode resp) @ '' ('' @
                   StatusText std (StatusCode resp) @ '')''))"
    using assms by (cases "errorlog cl"; cases out) (simp_all add: handleError_def Let_def d sc)
  show "sent (snd (snd (handleError std cl resp w))) = sent w"
    using assms by (cases "errorlog cl"; cases out) (simp_all add: handleError_def Let_def d w')
  show "decoded (snd (snd (handleError std cl resp w))) = decoded w"
    using assms by (cases "errorlog cl"; cases out) (simp_all add: handleError_def Let_def d w')
  show "closed (snd (snd (handleError std cl resp w))) =
           closed w + (case Body resp of
                         None \<Rightarrow> 0
                       | Some b \<Rightarrow> if errorlog cl \<noteq> None \<and> kind b = FromClient \<and>
                                     read_err b = None then 1 else 0)"
    using assms
    by (cases "errorlog cl"; cases out)
       (simp_all add: handleError_def Let_def d c split: option.split)
  show "drained (snd (snd (handleError std cl resp w))) =
           drained w + (case Body resp of
                          None \<Rightarrow> 0
                        | Some b \<Rightarrow> if errorlog cl \<noteq> None \<and> kind b = FromClient then 1 else 0)"
    using assms
    by (cases "errorlog cl"; cases out)
       (simp_all add: handleError_def Let_def d dr split: option.split)
qed

subsection \<open>After the response has arrived\<close>

lemma io_Copy_ok:
  "read_err src = None \<Longrightarrow> write_err dst = None \<Longrightarrow>
   io_Copy dst src = (None, dst\<lparr>written := written dst @ unread src\<rparr>)"
  by (simp add: io_Copy_def)

lemma do_response_failure:
  assumes "StatusCode resp < 200 \<or> 300 \<le> StatusCode resp"
  shows "fst (do_response std cl resp result w) =
           Some (Error ''http_error''
                  (''Unexpected status code: '' @ Itoa (StatusCode resp) @ '' ('' @
                   StatusText std (StatusCode resp) @ '')''))"
    and "fst (snd (do_response std cl resp result w)) = result"
    and "sent (snd (snd (do_response std cl resp result w))) = sent w"
    and "decoded (snd (snd (do_response std cl resp result w))) = decoded w"
    and "closed (snd (snd (do_response std cl resp result w))) =
           closed w + (case Body resp of
                         None \<Rightarrow> 0
                       | Some b \<Rightarrow> if errorlog cl \<noteq> None \<and> kind b = FromClient \<and>
                                     read_err b = None then 1 else 0)"
    and "drained (snd (snd (do_response std cl resp result w))) =
           drained w + (case Body resp of
                          None \<Rightarrow> 0
                        | Some b \<Rightarrow> if errorlog cl \<noteq> None \<and> kind b = FromClient then 1 else 0)"
proof -
  obtain e r1 w1 where h: "handleError std cl resp w = (e, r1, w1)"
    by (cases "handleError std cl resp w")
  have e: "e = Some (Error ''http_error''
                  (''Unexpected status code: '' @ Itoa (StatusCode resp) @ '' ('' @
                   StatusText std (StatusCode resp) @ '')''))"
    using handleError_failure(1) [OF assms, of std cl w] h by simp
  have w1: "sent w1 = sent w" "decoded w1 = decoded w"
    using handleError_failure(2,3) [OF assms, of std cl w] h by simp_all
  have c: "closed w1 =
           closed w + (case Body resp of
                         None \<Rightarrow> 0
                       | Some b \<Rightarrow> if errorlog cl \<noteq> None \<and> kind b = FromClient \<and>
                                     read_err b = None then 1 else 0)"
    using handleError_failure(4) [OF assms, of std cl w] h by simp
  have dr: "drained w1 =
           drained w + (case Body resp of
                          None \<Rightarrow> 0
                        | Some b \<Rightarrow> if errorlog cl \<noteq> None \<and> kind b = FromClient then 1 else 0)"
    using handleError_failure(5) [OF assms, of std cl w] h by simp
  have d: "do_response std cl resp result w = (e, result, w1)"
    by (simp add: do_response_def h e)
  show "fst (do_response std cl resp result w) =
           Some (Error ''http_error''
                  (''Unexpected status code: '' @ Itoa (StatusCode resp) @ '' ('' @
                   StatusText std (StatusCode resp) @ '')''))"
    by (simp add: d e)
  show "fst (snd (do_response std cl resp result w)) = result" by (simp add: d)
  show "sent (snd (snd (do_response std cl resp result w))) = sent w" by (simp add: d w1)
  show "decoded (snd (snd (do_response std cl resp result w))) = decoded w" by (simp add: d w1)
  show "closed (snd (snd (do_response std cl resp result w))) =
           closed w + (case Body resp of
                         None \<Rightarrow> 0
                       | Some b \<Rightarrow> if errorlog cl \<noteq> None \<and> kind b = FromClient \<and>
                                     read_err b = None then 1 else 0)"
    by (simp add: d c)
  show "drained (snd (snd (do_response std cl resp result w))) =
           drained w + (case Body resp of
                          None \<Rightarrow> 0
                        | Some b \<Rightarrow> if errorlog cl \<noteq> None \<and> kind b = FromClient then 1 else 0)"
    by (simp add: d dr)
qed

text \<open>After a status in the 2xx range.\<close>

lemma do_response_success_unfold:
  assumes "200 \<le> StatusCode resp" "StatusCode resp < 300"
  shows "do_response std cl resp result w =
     (let (resp', w') = dumpResponse std cl resp w
      in case result of
           Nil \<Rightarrow> (None, result, w')
         | Writer dst \<Rightarrow>
             (case Body resp' of
                None \<Rightarrow> (Some Panic, result, w')
              | Some src \<Rightarrow>
                  (let w'' = (if kind src = FromClient \<and> copy_drains dst src
                              then w'\<lparr>drained := drained w' + 1\<rparr> else w')
                   in case io_Copy dst src of
                        (Some err, dst') \<Rightarrow> (Some (Foreign err), Writer dst', w'')
                      | (None, dst') \<Rightarrow> (None, Writer dst', w'')))
         | Pointer dec v \<Rightarrow>
             (case Body resp' of
                None \<Rightarrow> (Some Panic, result, w'\<lparr>decoded := decoded w' + 1\<rparr>)
              | Some src \<Rightarrow>
                  (case dec src v of
                     (Some err, v', src') \<Rightarrow>
                       (let w'' = w'\<lparr>decoded := decoded w' + 1\<rparr>;
                            w'' = (case errorlog cl of
                                   None \<Rightarrow> w''
                                 | Some lg \<Rightarrow>
                                     (case DumpResponse std (resp'\<lparr>Body := Some src'\<rparr>) w'' of
                                        (Inr out, r, w3) \<Rightarrow> errorf cl (out @ [CHR 0x0A]) w3
                                      | (Inl e, r, w3) \<Rightarrow> w3))
                        in (Some (Foreign err), Pointer dec v', w''))
                   | (None, v', src') \<Rightarrow>
                       (None, Pointer dec v', w'\<lparr>decoded := decoded w' + 1\<rparr>))))"
  by (simp add: do_response_def handleError_success [OF assms])

lemma do_response_success_not_Error:
  assumes "200 \<le> StatusCode resp" "StatusCode resp < 300"
  shows "fst (do_response std cl resp result w) \<noteq> Some (Error code msg)"
  unfolding do_response_success_unfold [OF assms]
  by (simp add: Let_def split: prod.split target.split option.split)

lemma do_response_success_world:
  assumes "200 \<le> StatusCode resp" "StatusCode resp < 300"
  shows "sent (snd (snd (do_response std cl resp result w))) = sent w"
    and "closed w \<le> closed (snd (snd (do_response std cl resp result w)))"
    and "\<forall>dec v. result \<noteq> Pointer dec v \<Longrightarrow>
           decoded (snd (snd (do_response std cl resp result w))) = decoded w"
proof -
  obtain r2 w2 where d: "dumpResponse std cl resp w = (r2, w2)"
    by (cases "dumpResponse std cl resp w")
  have w2: "sent w2 = sent w" "decoded w2 = decoded w" "closed w \<le> closed w2"
    using dumpResponse_fields [of std cl resp w] dumpResponse_closed [of w std cl resp] d
    by simp_all
  show "sent (snd (snd (do_response std cl resp result w))) = sent w"
    unfolding do_response_success_unfold [OF assms] d
    by (simp add: Let_def split_def w2 split: target.split option.split sum.split)
  show "closed w \<le> closed (snd (snd (do_response std cl resp result w)))"
    unfolding do_response_success_unfold [OF assms] d
    using w2(3)
    by (simp add: Let_def split_def DumpResponse_closed
          split: target.split option.split sum.split)
  show "\<forall>dec v. result \<noteq> Pointer dec v \<Longrightarrow>
           decoded (snd (snd (do_response std cl resp result w))) = decoded w"
    unfolding do_response_success_unfold [OF assms] d
    by (simp add: Let_def split_def w2 split: target.split option.split)
qed

lemma do_response_success_Writer:
  assumes "200 \<le> StatusCode resp" "StatusCode resp < 300"
      and "Body resp = Some b" "read_err b = None" "write_err dst = None"
  shows "fst (do_response std cl resp (Writer dst) w) = None"
    and "fst (snd (do_response std cl resp (Writer dst) w)) =
           Writer (dst\<lparr>written := written dst @ unread b\<rparr>)"
proof -
  obtain r2 w2 where d: "dumpResponse std cl resp w = (r2, w2)"
    by (cases "dumpResponse std cl resp w")
  obtain b' where r2: "Body r2 = Some b'" "unread b' = unread b" "read_err b' = None"
    using dumpResponse_readable [OF assms(3,4), of std cl w] d by auto
  show "fst (do_response std cl resp (Writer dst) w) = None"
    unfolding do_response_success_unfold [OF assms(1,2)] d
    by (simp add: r2 assms io_Copy_ok Let_def)
  show "fst (snd (do_response std cl resp (Writer dst) w)) =
           Writer (dst\<lparr>written := written dst @ unread b\<rparr>)"
    unfolding do_response_success_unfold [OF assms(1,2)] d
    by (simp add: r2 assms io_Copy_ok Let_def)
qed

subsection \<open>The whole of \<open>do\<close>\<close>

lemma client_do_NewRequest_error:
  "NewRequest std method
     (url cl @ (if length params > 0 then rawurl @ ''?'' @ Encode std params else rawurl))
     reqbody = Inl err \<Longrightarrow>
   client_do std cl method rawurl params reqbody result authFunc w =
     (Some (Foreign err), result, w)"
  by (simp add: client_do_def Let_def)

lemma client_do_transport_error:
  assumes "NewRequest std method
     (url cl @ (if length params > 0 then rawurl @ ''?'' @ Encode std params else rawurl))
     reqbody = Inr rq"
    and "c' cl (authFunc (Header_Set ''Accept'' ''application/json'' rq)) = Inl err"
  shows "fst (client_do std cl method rawurl params reqbody result authFunc w) =
           Some (Foreign err)"
  using assms by (simp add: client_do_def Let_def)

lemma client_do_response:
  assumes "NewRequest std method
     (url cl @ (if length params > 0 then rawurl @ ''?'' @ Encode std params else rawurl))
     reqbody = Inr rq"
    and "c' cl (authFunc (Header_Set ''Accept'' ''application/json'' rq)) = Inr resp"
  shows "\<exists>w3.
    sent w3 = sent w @ [authFunc (Header_Set ''Accept'' ''application/json'' rq)] \<and>
    closed w3 = closed w \<and> decoded w3 = decoded w \<and> drained w3 = drained w \<and>
    client_do std cl method rawurl params reqbody result authFunc w =
       (fst (do_response std cl resp result w3),
        fst (snd (do_response std cl resp result w3)),
        (case Body resp of
           None \<Rightarrow> snd (snd (do_response std cl resp result w3))
         | Some b \<Rightarrow> (snd (snd (do_response std cl resp result w3)))
                       \<lparr>closed := closed (snd (snd (do_response std cl resp result w3))) + 1\<rparr>))"
proof (cases "tracelog cl")
  case None
  let ?req = "authFunc (Header_Set ''Accept'' ''application/json'' rq)"
  let ?w3 = "w\<lparr>sent := sent w @ [?req]\<rparr>"
  have "client_do std cl method rawurl params reqbody result authFunc w =
       (fst (do_response std cl resp result ?w3),
        fst (snd (do_response std cl resp result ?w3)),
        (case Body resp of
           None \<Rightarrow> snd (snd (do_response std cl resp result ?w3))
         | Some b \<Rightarrow> (snd (snd (do_response std cl resp result ?w3)))
                       \<lparr>closed := closed (snd (snd (do_response std cl resp result ?w3))) + 1\<rparr>))"
    using assms by (auto simp: client_do_def Let_def None split_def split: option.split)
  then show ?thesis
    by (intro exI [of _ ?w3]) simp
next
  case (Some lg)
  let ?rawurl = "(if length params > 0 then rawurl @ ''?'' @ Encode std params else rawurl)"
  let ?req = "authFunc (Header_Set ''Accept'' ''application/json'' rq)"
  let ?w1 = "tracef cl (''Start request '' @ ?rawurl) (dumpRequest std cl ?req w)"
  let ?w3 = "tracef cl (''End request '' @ ?rawurl) (?w1\<lparr>sent := sent ?w1 @ [?req]\<rparr>)"
  have "client_do std cl method rawurl params reqbody result authFunc w =
       (fst (do_response std cl resp result ?w3),
        fst (snd (do_response std cl resp result ?w3)),
        (case Body resp of
           None \<Rightarrow> snd (snd (do_response std cl resp result ?w3))
         | Some b \<Rightarrow> (snd (snd (do_response std cl resp result ?w3)))
                       \<lparr>closed := closed (snd (snd (do_response std cl resp result ?w3))) + 1\<rparr>))"
    using assms by (auto simp: client_do_def Let_def Some split_def split: option.split)
  then show ?thesis
    by (intro exI [of _ ?w3]) simp
qed

lemma client_do_not_MissingParams:
  "fst (client_do std cl method rawurl params reqbody result authFunc w) \<noteq>
     Some ErrMissingParams"
proof (cases "NewRequest std method
     (url cl @ (if length params > 0 then rawurl @ ''?'' @ Encode std params else rawurl))
     reqbody")
  case (Inl err)
  then show ?thesis
    by (simp add: client_do_NewRequest_error ErrMissingParams_def)
next
  case (Inr rq)
  show ?thesis
  proof (cases "c' cl (authFunc (Header_Set ''Accept'' ''application/json'' rq))")
    case (Inl err)
    then show ?thesis
      using client_do_transport_error
              [where authFunc = authFunc and result = result and w = w, OF Inr Inl]
      by (simp add: ErrMissingParams_def)
  next
    case ans: (Inr resp)
    obtain w3 where w3: "decoded w3 = decoded w" and cd:
      "client_do std cl method rawurl params reqbody result authFunc w =
       (fst (do_response std cl resp result w3),
        fst (snd (do_response std cl resp result w3)),
        (case Body resp of
           None \<Rightarrow> snd (snd (do_response std cl resp result w3))
         | Some b \<Rightarrow> (snd (snd (do_response std cl resp result w3)))
                       \<lparr>closed := closed (snd (snd (do_response std cl resp result w3))) + 1\<rparr>))"
      using client_do_response [where authFunc = authFunc and result = result and w = w, OF Inr ans]
      by blast
    show ?thesis
    proof (cases "StatusCode resp < 200 \<or> 300 \<le> StatusCode resp")
      case True
      then show ?thesis
        by (simp add: cd do_response_failure(1) ErrMissingParams_def)
    next
      case False
      then have "200 \<le> StatusCode resp" "StatusCode resp < 300" by simp_all
      then show ?thesis
        by (simp add: cd do_response_success_not_Error ErrMissingParams_def)
    qed
  qed
qed

lemma client_do_decoded:
  assumes "\<forall>dec v. result \<noteq> Pointer dec v"
  shows "decoded (snd (snd (client_do std cl method rawurl params reqbody result authFunc w))) =
           decoded w"
proof (cases "NewRequest std method
     (url cl @ (if length params > 0 then rawurl @ ''?'' @ Encode std params else rawurl))
     reqbody")
  case (Inl err)
  then show ?thesis
    by (simp add: client_do_NewRequest_error)
next
  case (Inr rq)
  show ?thesis
  proof (cases "c' cl (authFunc (Header_Set ''Accept'' ''application/json'' rq))")
    case (Inl err)
    then show ?thesis
      using Inr by (auto simp: client_do_def Let_def split: option.split)
  next
    case ans: (Inr resp)
    obtain w3 where w3: "decoded w3 = decoded w" and cd:
      "client_do std cl method rawurl params reqbody result authFunc w =
       (fst (do_response std cl resp result w3),
        fst (snd (do_response std cl resp result w3)),
        (case Body resp of
           None \<Rightarrow> snd (snd (do_response std cl resp result w3))
         | Some b \<Rightarrow> (snd (snd (do_response std cl resp result w3)))
                       \<lparr>closed := closed (snd (snd (do_response std cl resp result w3))) + 1\<rparr>))"
      using client_do_response [where authFunc = authFunc and result = result and w = w, OF Inr ans]
      by blast
    show ?thesis
    proof (cases "StatusCode resp < 200 \<or> 300 \<le> StatusCode resp")
      case True
      then show ?thesis
        by (simp add: cd do_response_failure(4) w3 split: option.split)
    next
      case False
      then have "200 \<le> StatusCode resp" "StatusCode resp < 300" by simp_all
      then show ?thesis
        using do_response_success_world(3) [OF _ _ assms, of resp std cl w3]
        by (simp add: cd w3 split: option.split)
    qed
  qed
qed

lemma Itoa_status: "Itoa 404 = ''404''" "Itoa 200 = ''200''"
  by (simp_all add: Itoa_def nat_digits.simps)

lemma raw_endpoints_decoded:
  "decoded (snd (snd (snd (ActorsJSON std cl areq dst w)))) = decoded w"
  "decoded (snd (snd (snd (IndicatorsJSON std cl ireq dst w)))) = decoded w"
  "decoded (snd (snd (snd (SearchIOCsJSON std rfc3339 cl sreq dst w)))) = decoded w"
  by (simp_all add: ActorsJSON_def IndicatorsJSON_def SearchIOCsJSON_def split_def Let_def
        client_do_decoded)

text \<open>
  Claim C6, as the specification states it: after a response whose status is outside
  200..299 the body has been drained and closed exactly once. It does not hold. With an
  error log set, as the command-line programs set one, the dump of \<open>handleError\<close> reads the
  body and closes it, and the deferred call of \<open>do\<close> closes it again: a 404 leaves the body
  closed twice. With no error log nothing reads the body: a 404 leaves it closed, and not
  drained.
\<close>

theorem do_error_body_counterexample:
  "closed (snd (snd (client_do stub_std (logging not_found) ''GET''
          ''actor/v1/queries/actors'' [] None (Nil :: unit target)
          (Intel_authFunc (logging not_found)) zero_world))) = 2
   \<and> drained (snd (snd (client_do stub_std (answering not_found) ''GET''
          ''actor/v1/queries/actors'' [] None (Nil :: unit target)
          (Intel_authFunc (answering not_found)) zero_world))) = 0"
  by (simp add: client_do_def do_response_def handleError_def DumpResponse_def Let_def
        stub_std_def logging_def answering_def not_found_def zero_world_def errorf_def
        Printf_def)

text \<open>
  Claim C6, amended: when the HTTP client has answered a response whose status is outside
  200..299, \<open>do\<close> returns the error with code \<open>http_error\<close> whose message holds the status
  in decimal and its reason text, and when the status is inside 200..299 \<open>do\<close> returns no
  \<open>http_error\<close>. On the error path the body is read only by the dump for the error log.
  With no error log the body is not read and is closed once, by the deferred call of
  \<open>do\<close>. With an error log, a body that the HTTP client made is read to its end by the
  dump, which also closes it when the reading ends without error, so that with the deferred
  call it is closed twice; \<open>http.NoBody\<close> is neither read nor closed by the dump and is
  closed once. A response without a body is neither read nor closed. For every status, a
  body is closed at least once, and exactly one request has been handed to the HTTP client.
\<close>

theorem do_classifies_status:
  assumes "NewRequest std verb
     (url cl @ (if length params > 0 then rawurl @ ''?'' @ Encode std params else rawurl))
     reqbody = Inr rq"
    and "c' cl (authFunc (Header_Set ''Accept'' ''application/json'' rq)) = Inr resp"
  shows "(StatusCode resp < 200 \<or> 300 \<le> StatusCode resp \<longrightarrow>
            fst (client_do std cl verb rawurl params reqbody result authFunc w) =
              Some (Error ''http_error''
                     (''Unexpected status code: '' @ Itoa (StatusCode resp) @ '' ('' @
                      StatusText std (StatusCode resp) @ '')''))
            \<and> closed (snd (snd (client_do std cl verb rawurl params reqbody result authFunc w))) =
                closed w +
                (case Body resp of
                   None \<Rightarrow> 0
                 | Some b \<Rightarrow> if errorlog cl \<noteq> None \<and> kind b = FromClient \<and>
                               read_err b = None then 2 else 1)
            \<and> drained (snd (snd (client_do std cl verb rawurl params reqbody result authFunc w))) =
                drained w +
                (case Body resp of
                   None \<Rightarrow> 0
                 | Some b \<Rightarrow> if errorlog cl \<noteq> None \<and> kind b = FromClient then 1 else 0))
         \<and> (200 \<le> StatusCode resp \<and> StatusCode resp < 300 \<longrightarrow>
              (\<forall>msg. fst (client_do std cl verb rawurl params reqbody result authFunc w) \<noteq>
                 Some (Error ''http_error'' msg)))
         \<and> closed w + (case Body resp of None \<Rightarrow> 0 | Some b \<Rightarrow> 1) \<le>
             closed (snd (snd (client_do std cl verb rawurl params reqbody result authFunc w)))
         \<and> sent (snd (snd (client_do std cl verb rawurl params reqbody result authFunc w))) =
             sent w @ [authFunc (Header_Set ''Accept'' ''application/json'' rq)]"
proof -
  obtain w3 where w3: "closed w3 = closed w" "drained w3 = drained w"
      "sent w3 = sent w @ [authFunc (Header_Set ''Accept'' ''application/json'' rq)]"
    and cd:
      "client_do std cl verb rawurl params reqbody result authFunc w =
       (fst (do_response std cl resp result w3),
        fst (snd (do_response std cl resp result w3)),
        (case Body resp of
           None \<Rightarrow> snd (snd (do_response std cl resp result w3))
         | Some b \<Rightarrow> (snd (snd (do_response std cl resp result w3)))
                       \<lparr>closed := closed (snd (snd (do_response std cl resp result w3))) + 1\<rparr>))"
    using client_do_response [where authFunc = authFunc and result = result and w = w, OF assms]
    by blast
  show ?thesis
  proof (cases "StatusCode resp < 200 \<or> 300 \<le> StatusCode resp")
    case True
    have "\<not> (200 \<le> StatusCode resp \<and> StatusCode resp < 300)"
      using True by auto
    then show ?thesis
      by (auto simp: cd do_response_failure [OF True] w3 split: option.split)
  next
    case False
    then have ok: "200 \<le> StatusCode resp" "StatusCode resp < 300" by simp_all
    have "closed w \<le> closed (snd (snd (do_response std cl resp result w3)))"
      using do_response_success_world(2) [OF ok, of w3 std cl result] w3 by simp
    then show ?thesis
      using False
      by (simp add: cd do_response_success_not_Error [OF ok] do_response_success_world(1) [OF ok]
            w3 split: option.split)
  qed
qed

text \<open>
  A simulated 404 with and without an error log, and a 200.
\<close>

theorem do_classifies_status_witness:
  "fst (client_do stub_std (answering not_found) ''GET'' ''actor/v1/queries/actors'' [] None
          (Nil :: unit target) (Intel_authFunc (answering not_found)) zero_world) =
     Some (Error ''http_error'' ''Unexpected status code: 404 (Not Found)'')
   \<and> closed (snd (snd (client_do stub_std (answering not_found) ''GET''
          ''actor/v1/queries/actors'' [] None (Nil :: unit target)
          (Intel_authFunc (answering not_found)) zero_world))) = 1
   \<and> drained (snd (snd (client_do stub_std (logging not_found) ''GET''
          ''actor/v1/queries/actors'' [] None (Nil :: unit target)
          (Intel_authFunc (logging not_found)) zero_world))) = 1
   \<and> fst (client_do stub_std (answering ok_not_json) ''GET'' ''actor/v1/queries/actors'' [] None
          (Nil :: unit target) (Intel_authFunc (answering ok_not_json)) zero_world) \<noteq>
     Some (Error ''http_error'' ''Unexpected status code: 200 (OK)'')"
  using do_classifies_status
          [where std = stub_std and cl = "answering not_found"
              and verb = "''GET''"
              and rawurl = "''actor/v1/queries/actors''" and params = "[]" and reqbody = None
              and result = "Nil :: unit target"
              and authFunc = "Intel_authFunc (answering not_found)" and w = zero_world
              and resp = not_found
              and rq = "\<lparr>Method = ''GET'', URL = ''https://localhost/actor/v1/queries/actors'',
                          Header = [], ReqBody = None\<rparr>"]
        do_classifies_status
          [where std = stub_std and cl = "logging not_found"
              and verb = "''GET''"
              and rawurl = "''actor/v1/queries/actors''" and params = "[]" and reqbody = None
              and result = "Nil :: unit target"
              and authFunc = "Intel_authFunc (logging not_found)" and w = zero_world
              and resp = not_found
              and rq = "\<lparr>Method = ''GET'', URL = ''https://localhost/actor/v1/queries/actors'',
                          Header = [], ReqBody = None\<rparr>"]
        do_classifies_status
          [where std = stub_std and cl = "answering ok_not_json"
              and verb = "''GET''"
              and rawurl = "''actor/v1/queries/actors''" and params = "[]" and reqbody = None
              and result = "Nil :: unit target"
              and authFunc = "Intel_authFunc (answering ok_not_json)" and w = zero_world
              and resp = ok_not_json
              and rq = "\<lparr>Method = ''GET'', URL = ''https://localhost/actor/v1/queries/actors'',
                          Header = [], ReqBody = None\<rparr>"]
  by (simp add: stub_std_def answering_def logging_def not_found_def ok_not_json_def
        zero_world_def Itoa_status)

text \<open>
  Claim C9: when the status is inside 200..299 and the target is a byte sink, \<open>do\<close> appends
  to the sink the bytes of the body as they are and returns no error, whatever the bytes
  (the sink takes the bytes and the body reads to its end without error); no JSON decoding is
  started, in \<open>do\<close> and in the raw variants of the endpoints, which hand their sink to
  \<open>do\<close> and return what it returns: no value exists there for the normalizer to touch.
\<close>

theorem do_copies_raw_body:
  assumes "NewRequest std verb
     (url cl @ (if length params > 0 then rawurl @ ''?'' @ Encode std params else rawurl))
     reqbody = Inr rq"
    and "c' cl (authFunc (Header_Set ''Accept'' ''application/json'' rq)) = Inr resp"
    and "200 \<le> StatusCode resp" "StatusCode resp < 300"
    and "Body resp = Some b" "read_err b = None" "write_err dst = None"
  shows "fst (client_do std cl verb rawurl params reqbody (Writer dst :: 'v target) authFunc w) = None
         \<and> fst (snd (client_do std cl verb rawurl params reqbody (Writer dst :: 'v target) authFunc w)) =
             Writer (dst\<lparr>written := written dst @ unread b\<rparr>)
         \<and> decoded (snd (snd (client_do std cl verb rawurl params reqbody (Writer dst :: 'v target)
                                 authFunc w))) = decoded w
         \<and> decoded (snd (snd (snd (ActorsJSON std cl areq dst w)))) = decoded w
         \<and> decoded (snd (snd (snd (IndicatorsJSON std cl ireq dst w)))) = decoded w
         \<and> decoded (snd (snd (snd (SearchIOCsJSON std rfc3339 cl sreq dst w)))) = decoded w"
proof -
  obtain w3 where cd:
      "client_do std cl verb rawurl params reqbody (Writer dst :: 'v target) authFunc w =
       (fst (do_response std cl resp (Writer dst :: 'v target) w3),
        fst (snd (do_response std cl resp (Writer dst :: 'v target) w3)),
        (case Body resp of
           None \<Rightarrow> snd (snd (do_response std cl resp (Writer dst :: 'v target) w3))
         | Some b \<Rightarrow> (snd (snd (do_response std cl resp (Writer dst :: 'v target) w3)))
                       \<lparr>closed := closed (snd (snd (do_response std cl resp (Writer dst :: 'v target) w3))) + 1\<rparr>))"
    using client_do_response [where authFunc = authFunc and result = "Writer dst :: 'v target" and w = w,
            OF assms(1,2)]
    by blast
  have "decoded (snd (snd (client_do std cl verb rawurl params reqbody (Writer dst :: 'v target)
                                 authFunc w))) = decoded w"
    by (rule client_do_decoded) simp
  then show ?thesis
    by (simp add: cd do_response_success_Writer [OF assms(3-7)] raw_endpoints_decoded)
qed

text \<open>A body that is not JSON reaches the sink unchanged.\<close>

theorem do_copies_raw_body_witness:
  "fst (client_do stub_std (answering ok_not_json) ''GET'' ''actor/v1/queries/actors'' [] None
          (Writer empty_sink :: unit target) (Intel_authFunc (answering ok_not_json))
          zero_world) = None
   \<and> fst (snd (client_do stub_std (answering ok_not_json) ''GET'' ''actor/v1/queries/actors''
          [] None (Writer empty_sink :: unit target) (Intel_authFunc (answering ok_not_json))
          zero_world)) = Writer \<lparr>written = ''{not json'', write_err = None\<rparr>"
  using do_copies_raw_body [where std = stub_std and cl = "answering ok_not_json"
              and verb = "''GET''"
              and rawurl = "''actor/v1/queries/actors''" and params = "[]" and reqbody = None
              and dst = empty_sink and 'v = unit
              and authFunc = "Intel_authFunc (answering ok_not_json)" and w = zero_world
              and resp = ok_not_json and b = "\<lparr>unread = ''{not json'', read_err = None, kind = FromClient\<rparr>"
              and rq = "\<lparr>Method = ''GET'', URL = ''https://localhost/actor/v1/queries/actors'',
                            Header = [], ReqBody = None\<rparr>"]
  by (simp add: stub_std_def answering_def ok_not_json_def empty_sink_def)

section \<open>Properties of the endpoint methods\<close>

text \<open>
  Claim C7: when any of \<open>Parameter\<close>, \<open>Filter\<close> and \<open>Value\<close> is empty, \<open>Indicators\<close> and
  \<open>IndicatorsJSON\<close> return the missing-parameters error and leave the request, the sink
  and the world as they were: no request has been handed to the HTTP client. When all
  three are set, neither returns that error.
\<close>

theorem indicators_require_parameters:
  "(Parameter req = [] \<or> Filter req = [] \<or> Value req = [] \<longrightarrow>
      Indicators std oor dec cl req w = (([], Some ErrMissingParams), req, w)
      \<and> IndicatorsJSON std cl req dst w = (Some ErrMissingParams, req, dst, w))
   \<and> (Parameter req \<noteq> [] \<and> Filter req \<noteq> [] \<and> Value req \<noteq> [] \<longrightarrow>
        snd (fst (Indicators std oor dec cl req w)) \<noteq> Some ErrMissingParams
        \<and> fst (IndicatorsJSON std cl req dst w) \<noteq> Some ErrMissingParams)"
  by (simp add: Indicators_def IndicatorsJSON_def Let_def split_def client_do_not_MissingParams)

theorem indicators_require_parameters_witness:
  "Indicators stub_std oor_amd64 (\<lambda>src v. (Some ''unexpected end of JSON input'', v, src))
     (answering ok_not_json) (zero_IndicatorRequest\<lparr>Parameter := ''domain'', Value := ''x''\<rparr>)
     zero_world =
     (([], Some ErrMissingParams), zero_IndicatorRequest\<lparr>Parameter := ''domain'', Value := ''x''\<rparr>,
      zero_world)
   \<and> snd (fst (Indicators stub_std oor_amd64
                  (\<lambda>src v. (Some ''unexpected end of JSON input'', v, src))
                  (answering ok_not_json)
                  (zero_IndicatorRequest\<lparr>Parameter := ''domain'', Filter := ''match'',
                     Value := ''x''\<rparr>) zero_world)) \<noteq> Some ErrMissingParams"
  using indicators_require_parameters
          [where req = "zero_IndicatorRequest\<lparr>Parameter := ''domain'', Value := ''x''\<rparr>"
              and std = stub_std and oor = oor_amd64
              and dec = "\<lambda>src v. (Some ''unexpected end of JSON input'', v, src)"
              and cl = "answering ok_not_json" and w = zero_world]
        indicators_require_parameters
          [where req = "zero_IndicatorRequest\<lparr>Parameter := ''domain'', Filter := ''match'',
                          Value := ''x''\<rparr>"
              and std = stub_std and oor = oor_amd64
              and dec = "\<lambda>src v. (Some ''unexpected end of JSON input'', v, src)"
              and cl = "answering ok_not_json" and w = zero_world]
  by (simp add: zero_IndicatorRequest_def)

end
